theory Spec2Isabelle
  imports Complex_Main "HOL-Library.AList" "HOL-Library.Sublist"
begin

section \<open>Core types of the agent layer (agents/core/types.py)\<close>

text \<open>
  The enumerations of \<^verbatim>\<open>types.py\<close>, one constructor per member, in the order of the
  source. The member \<^verbatim>\<open>TIMEOUT\<close> of \<^verbatim>\<open>AgentErrorCode\<close> is written
  \<open>TIMEOUT_ERROR\<close>, \<^verbatim>\<open>AgentStatus\<close> having a member of the same name.
\<close>

datatype AgentType =
    STRATEGY_ANALYZER | RISK_ASSESSOR | SIGNAL_GENERATOR
  | DATA_COLLECTOR | DATA_ANALYZER
  | ORCHESTRATOR | SUPERVISOR
  | TECHNICAL_ANALYST | FUNDAMENTAL_ANALYST | SENTIMENT_ANALYST | NEWS_ANALYST

datatype AgentStatus = IDLE | RUNNING | WAITING | COMPLETED | FAILED | TIMEOUT

datatype DecisionType = BUY | SELL | HOLD | OBSERVE | ALERT

datatype ConfidenceLevel = VERY_HIGH | HIGH | MEDIUM | LOW | VERY_LOW

datatype AgentErrorCode =
    AGENT_NOT_FOUND | AGENT_INITIALIZATION_FAILED | EXECUTION_FAILED
  | TOOL_EXECUTION_FAILED | LLM_ERROR | TIMEOUT_ERROR | MAX_ITERATIONS_EXCEEDED
  | INVALID_INPUT | INVALID_OUTPUT | WORKFLOW_ERROR

section \<open>Python values, dictionaries, strings and exceptions\<close>

text \<open>
  The agent layer passes untyped values around (\<^verbatim>\<open>dict[str, Any]\<close>, tool results, parsed
  JSON). They are modelled by one datatype. A Python \<^verbatim>\<open>dict\<close> with string keys is an
  association list in insertion order; \<^verbatim>\<open>d[k] = v\<close> replaces the value of an existing key
  in place and appends a new key, which is what \<^const>\<open>AList.update\<close> does. Strings are
  lists of characters; a character of the model is a code point below 256.
\<close>

datatype pyval =
    PNone
  | PBool bool
  | PInt int
  | PFloat real
  | PStr string
  | PList "pyval list"
  | PDict "(string \<times> pyval) list"

type_synonym pydict = "(string \<times> pyval) list"

definition dict_keys :: "pydict \<Rightarrow> string list" where
  "dict_keys d = map fst d"

definition dict_contains :: "string \<Rightarrow> pydict \<Rightarrow> bool" where
  \<comment> \<open>\<^verbatim>\<open>k in d\<close>\<close>
  "dict_contains k d = (map_of d k \<noteq> None)"

definition dict_get :: "pydict \<Rightarrow> string \<Rightarrow> pyval \<Rightarrow> pyval" where
  \<comment> \<open>\<^verbatim>\<open>d.get(k, default)\<close>\<close>
  "dict_get d k dflt = (case map_of d k of None \<Rightarrow> dflt | Some v \<Rightarrow> v)"

definition dict_set :: "string \<Rightarrow> pyval \<Rightarrow> pydict \<Rightarrow> pydict" where
  \<comment> \<open>\<^verbatim>\<open>d[k] = v\<close>\<close>
  "dict_set k v d = AList.update k v d"

definition dict_update :: "pydict \<Rightarrow> pydict \<Rightarrow> pydict" where
  \<comment> \<open>\<^verbatim>\<open>d.update(other)\<close>: the entries of \<open>other\<close> are stored one by one, in its order\<close>
  "dict_update d other = fold (\<lambda>(k, v). dict_set k v) other d"

text \<open>
  Exceptions. \<^verbatim>\<open>AgentError\<close> (types.py, lines 248-263) carries a code, the message
  (which is its \<^verbatim>\<open>str\<close>), the agent id and type, and, when raised with
  \<^verbatim>\<open>raise ... from e\<close>, the cause; its \<^verbatim>\<open>details\<close> dictionary is left out. Every
  other exception is a class of the Python library with its message. The model covers the
  subclasses of \<^verbatim>\<open>Exception\<close>, which is what \<^verbatim>\<open>except Exception\<close> catches.
\<close>

datatype exn_class =
    TypeError | KeyError | AttributeError | IndexError | JSONDecodeError | ValueError
  | RuntimeError

datatype exn =
    AgentError AgentErrorCode string "string option" "AgentType option" "exn option"
  | PyException exn_class string

fun exn_str :: "exn \<Rightarrow> string" where
  \<comment> \<open>\<^verbatim>\<open>str(e)\<close>\<close>
  "exn_str (AgentError code message aid aty cause) = message"
| "exn_str (PyException cls message) = message"

fun is_AgentError :: "exn \<Rightarrow> bool" where
  \<comment> \<open>\<^verbatim>\<open>isinstance(e, AgentError)\<close>\<close>
  "is_AgentError (AgentError code message aid aty cause) = True"
| "is_AgentError (PyException cls message) = False"

fun error_code :: "exn \<Rightarrow> AgentErrorCode option" where
  "error_code (AgentError code message aid aty cause) = Some code"
| "error_code (PyException cls message) = None"

text \<open>\<^verbatim>\<open>str(n)\<close> of a Python integer, for the messages built with f-strings.\<close>

fun digit_char :: "nat \<Rightarrow> char" where
  "digit_char n = char_of (48 + n)"

fun str_nat :: "nat \<Rightarrow> string" where
  "str_nat n = (if n < 10 then [digit_char n] else str_nat (n div 10) @ [digit_char (n mod 10)])"

definition str_int :: "int \<Rightarrow> string" where
  "str_int i = (if i < 0 then CHR ''-'' # str_nat (nat (- i)) else str_nat (nat i))"

text \<open>
  String operations of Python used by the parsers: \<^verbatim>\<open>sub in s\<close>,
  \<^verbatim>\<open>s.split(sep)\<close> (pieces between the non-overlapping occurrences of \<open>sep\<close>, found
  from the left; an empty separator raises \<^verbatim>\<open>ValueError\<close>), \<^verbatim>\<open>s.strip()\<close> and list
  indexing, which raises \<^verbatim>\<open>IndexError\<close> out of range.
\<close>

fun py_in :: "string \<Rightarrow> string \<Rightarrow> bool" where
  "py_in sub [] = (sub = [])"
| "py_in sub (c # cs) = (prefix sub (c # cs) \<or> py_in sub cs)"

function split_pieces :: "string \<Rightarrow> string \<Rightarrow> string \<Rightarrow> string list" where
  "split_pieces sep cur [] = [cur]"
| "split_pieces sep cur (c # cs) =
     (if sep \<noteq> [] \<and> prefix sep (c # cs)
      then cur # split_pieces sep [] (drop (length sep) (c # cs))
      else split_pieces sep (cur @ [c]) cs)"
  by pat_completeness auto
termination
  by (relation "measure (\<lambda>(sep, cur, s). length s)") (auto simp: neq_Nil_conv)

definition py_split :: "string \<Rightarrow> string \<Rightarrow> exn + string list" where
  "py_split s sep =
     (if sep = [] then Inl (PyException ValueError ''empty separator'')
      else Inr (split_pieces sep [] s))"

definition py_index :: "'a list \<Rightarrow> nat \<Rightarrow> exn + 'a" where
  \<comment> \<open>\<^verbatim>\<open>xs[i]\<close> for a non-negative literal index\<close>
  "py_index xs i =
     (if i < length xs then Inr (xs ! i)
      else Inl (PyException IndexError ''list index out of range''))"

definition is_space :: "char \<Rightarrow> bool" where
  \<comment> \<open>the code points below 256 on which \<^verbatim>\<open>str.isspace\<close> holds: the ASCII white
      space and separators, NEXT LINE (U+0085) and NO-BREAK SPACE (U+00A0)\<close>
  "is_space c = (c \<in> set [CHR 0x20, CHR 0x09, CHR 0x0A, CHR 0x0B, CHR 0x0C, CHR 0x0D,
                           CHR 0x1C, CHR 0x1D, CHR 0x1E, CHR 0x1F, CHR 0x85, CHR 0xA0])"

definition py_strip :: "string \<Rightarrow> string" where
  "py_strip s = rev (dropWhile is_space (rev (dropWhile is_space s)))"


subsection \<open>Decision.confidence_level\<close>

text \<open>
  \<^verbatim>\<open>Decision.confidence_level\<close> (types.py, lines 189-201) is a chain of \<open>\<ge>\<close> tests on the
  \<^verbatim>\<open>confidence\<close> field. The field is a Python float; the model takes it as a real
  number. The four thresholds are compared exactly as written: 0.75, 0.5 and 0.25 are
  binary fractions, and no double lies between the real 0.9 and the double nearest to it,
  so on every finite double the real comparison and the float comparison agree. A NaN, on
  which every test fails, is not a value of the model.
\<close>

definition confidence_level :: "real \<Rightarrow> ConfidenceLevel" where
  "confidence_level confidence =
     (if confidence \<ge> 0.9 then VERY_HIGH
      else if confidence \<ge> 0.75 then HIGH
      else if confidence \<ge> 0.5 then MEDIUM
      else if confidence \<ge> 0.25 then LOW
      else VERY_LOW)"

subsection \<open>Dataclasses of types.py\<close>

text \<open>
  \<^verbatim>\<open>AgentConfig\<close>, \<^verbatim>\<open>AgentInput\<close>, \<^verbatim>\<open>AgentOutput\<close> and \<^verbatim>\<open>Decision\<close>. The
  \<^verbatim>\<open>timestamp\<close> fields (defaults read from the clock) are left out. The fields of a
  \<^verbatim>\<open>Decision\<close> that result extraction fills from parsed JSON are not validated by the
  dataclass, so they hold whatever value the JSON had. A field whose name is also the name
  of a field of another class, of a local variable of the source or of an Isabelle keyword
  carries a prefix (\<open>cfg_\<close>, \<open>bt_\<close>, \<open>md_\<close>, \<open>input_\<close>, \<open>out_\<close>, \<open>st_\<close>, \<open>self_\<close>).
\<close>

record AgentConfig =
  cfg_agent_id :: string
  cfg_agent_type :: AgentType
  name :: string
  description :: string
  model_name :: string
  temperature :: real
  max_tokens :: int
  max_retries :: int
  timeout_seconds :: int
  max_iterations :: int
  allowed_tools :: "string list"
  system_prompt :: string
  extra_config :: pydict

record AgentInput =
  task_id :: string
  task_type :: string
  input_content :: pydict
  input_context :: pydict
  metadata :: pydict

record Decision =
  decision_type :: DecisionType
  symbol :: pyval
  confidence :: pyval
  reasoning :: pyval
  risk_factors :: pyval
  supporting_data :: pydict
  recommended_action :: pyval

text \<open>
  The property read on a \<^verbatim>\<open>Decision\<close> object. A float, an integer or a boolean is
  compared as a number; comparing any other value with a float is a \<^verbatim>\<open>TypeError\<close>.
\<close>

definition decision_confidence_level :: "Decision \<Rightarrow> exn + ConfidenceLevel" where
  "decision_confidence_level d =
     (case confidence d of
        PFloat c \<Rightarrow> Inr (confidence_level c)
      | PInt i \<Rightarrow> Inr (confidence_level (of_int i))
      | PBool b \<Rightarrow> Inr (confidence_level (if b then 1 else 0))
      | _ \<Rightarrow> Inl (PyException TypeError ''>= not supported between these instances''))"

record AgentOutput =
  out_task_id :: string
  out_agent_id :: string
  out_agent_type :: AgentType
  status :: AgentStatus
  result :: pydict
  decisions :: "Decision list"
  error :: "string option"
  execution_time_ms :: real
  token_usage :: pydict

subsection \<open>Messages and the agent state\<close>

text \<open>
  A tool call of an \<^verbatim>\<open>AIMessage\<close> is a dictionary read with
  \<^verbatim>\<open>.get("name", "")\<close>, \<^verbatim>\<open>.get("args", {})\<close>, \<^verbatim>\<open>.get("id", "")\<close> and
  \<^verbatim>\<open>tc["name"]\<close>; its three keys are optional fields.
\<close>

record tool_call =
  tc_name :: "string option"
  tc_args :: "pydict option"
  tc_id :: "string option"

record AIMessage =
  ai_content :: string
  tool_calls :: "tool_call list"

datatype message =
    SystemMessage string
  | HumanMessage string
  | AIMsg AIMessage
  | ToolMessage string string

fun message_content :: "message \<Rightarrow> string" where
  "message_content (SystemMessage c) = c"
| "message_content (HumanMessage c) = c"
| "message_content (AIMsg m) = ai_content m"
| "message_content (ToolMessage c tool_call_id) = c"

text \<open>
  \<^verbatim>\<open>AgentState\<close> is a \<^verbatim>\<open>TypedDict\<close> with \<^verbatim>\<open>total=False\<close>: every key may be
  absent, and base.py reads the keys with \<^verbatim>\<open>.get(key, default)\<close>. Each key is an
  optional field; \<open>None\<close> is the absent key.
\<close>

record AgentState =
  st_messages :: "message list option"
  st_task_id :: "string option"
  st_task_type :: "string option"
  st_task_input :: "pydict option"
  st_current_agent :: "string option"
  st_agent_outputs :: "pydict option"
  st_agent_errors :: "pydict option"
  st_tool_results :: "pydict option"
  st_decisions :: "pydict list option"
  st_final_decision :: "pyval option"
  st_metadata :: "pydict option"
  st_iteration_count :: "int option"
  st_max_iterations :: "int option"
  st_should_end :: "bool option"

section \<open>The agent base classes (agents/core/base.py)\<close>

text \<open>
  The language model, the tools and the clock are outside the program. Each call to one
  of them is numbered, and the answer to a call is a function of its number and its
  argument, so that a model or a tool may answer the same request differently each time.
  The \<^emph>\<open>world\<close> counts the calls made so far and records the delays slept.
\<close>

record world =
  calls :: nat
  sleeps :: "real list"

datatype llm_return = RetAIMessage AIMessage | RetOther string

type_synonym llm = "nat \<Rightarrow> message list \<Rightarrow> exn + llm_return"

text \<open>A tool object (\<^verbatim>\<open>BaseTool\<close>): its name, its description and its \<^verbatim>\<open>ainvoke\<close>.\<close>

record BaseTool =
  bt_name :: string
  bt_description :: string
  ainvoke :: "nat \<Rightarrow> pydict \<Rightarrow> exn + pyval"

text \<open>
  An agent object: the attributes set by \<^verbatim>\<open>BaseAgent.__init__\<close>, the class attributes
  and the methods a subclass overrides (\<^verbatim>\<open>_format_task_message\<close>,
  \<^verbatim>\<open>extract_result\<close>, the template \<^verbatim>\<open>plan_prompt\<close> applied to the task). With
  them go two library functions its methods call: \<open>py_str\<close> is Python's \<^verbatim>\<open>str\<close> on
  a tool result, and \<open>clock\<close> answers \<^verbatim>\<open>time.time()\<close>; a reading of the clock is a
  numbered call like the others.
\<close>

record agent =
  self_config :: AgentConfig
  self_agent_type :: AgentType
  default_system_prompt :: string
  self_llm :: llm
  self_llm_with_tools :: llm
  self_tools :: "BaseTool list"
  format_task_message :: "AgentInput \<Rightarrow> string"
  extract_result :: "AIMessage \<Rightarrow> AgentState \<Rightarrow> exn + (pydict \<times> Decision list)"
  plan_prompt :: "pydict \<Rightarrow> string"
  py_str :: "pyval \<Rightarrow> string"
  clock :: "nat \<Rightarrow> real"

definition self_agent_id :: "agent \<Rightarrow> string" where
  "self_agent_id ag = cfg_agent_id (self_config ag)"

definition self_system_prompt :: "agent \<Rightarrow> string" where
  \<comment> \<open>\<^verbatim>\<open>self.config.system_prompt or self.default_system_prompt\<close>\<close>
  "self_system_prompt ag =
     (if system_prompt (self_config ag) \<noteq> [] then system_prompt (self_config ag)
      else default_system_prompt ag)"

definition get_tool :: "agent \<Rightarrow> string \<Rightarrow> BaseTool option" where
  \<comment> \<open>\<^verbatim>\<open>self._tool_map.get(name)\<close>, the map being \<^verbatim>\<open>{tool.name: tool for tool in self.tools}\<close>:
      a later tool of the same name replaces an earlier one\<close>
  "get_tool ag nm = map_of (rev (map (\<lambda>t. (bt_name t, t)) (self_tools ag))) nm"

subsection \<open>BaseAgent._validate_input and BaseAgent._prepare_initial_state\<close>

definition validate_input :: "agent \<Rightarrow> AgentInput \<Rightarrow> exn + unit" where
  "validate_input ag agent_input =
     (if task_id agent_input = [] then
        Inl (AgentError INVALID_INPUT ''Task ID is required''
               (Some (self_agent_id ag)) (Some (self_agent_type ag)) None)
      else Inr ())"

definition prepare_initial_state :: "agent \<Rightarrow> AgentInput \<Rightarrow> AgentState" where
  "prepare_initial_state ag agent_input =
     (let messages = (if self_system_prompt ag \<noteq> [] then [SystemMessage (self_system_prompt ag)]
                      else []);
          task_message = format_task_message ag agent_input;
          messages = messages @ [HumanMessage task_message]
      in \<lparr> st_messages = Some messages,
           st_task_id = Some (task_id agent_input),
           st_task_type = Some (task_type agent_input),
           st_task_input = Some (input_content agent_input),
           st_current_agent = Some (self_agent_id ag),
           st_agent_outputs = Some [],
           st_agent_errors = Some [],
           st_tool_results = Some [],
           st_decisions = Some [],
           st_final_decision = None,
           st_metadata = Some (metadata agent_input),
           st_iteration_count = Some 0,
           st_max_iterations = Some (max_iterations (self_config ag)),
           st_should_end = Some False \<rparr>)"

subsection \<open>BaseAgent.invoke_llm\<close>

text \<open>
  The retry loop \<^verbatim>\<open>for attempt in range(max_retries)\<close>. A response that is not an
  \<^verbatim>\<open>AIMessage\<close> is wrapped in one. After a failed attempt that is not the last, the
  helper sleeps \<^verbatim>\<open>(2 ** attempt) * 0.5\<close> seconds. When the range is exhausted it raises
  \<^verbatim>\<open>AgentError(LLM_ERROR, ...) from last_error\<close>. The delay is an exact number in
  the model.
\<close>

definition as_AIMessage :: "llm_return \<Rightarrow> AIMessage" where
  "as_AIMessage r =
     (case r of RetAIMessage m \<Rightarrow> m
      | RetOther s \<Rightarrow> \<lparr> ai_content = s, tool_calls = [] \<rparr>)"

definition llm_error_message :: "int \<Rightarrow> exn option \<Rightarrow> string" where
  "llm_error_message retries last_error =
     ''LLM invocation failed after '' @ str_int retries @ '' attempts: '' @
     (case last_error of None \<Rightarrow> ''None'' | Some e \<Rightarrow> exn_str e)"

function invoke_llm_attempts ::
  "agent \<Rightarrow> llm \<Rightarrow> message list \<Rightarrow> nat \<Rightarrow> exn option \<Rightarrow> world \<Rightarrow> (exn + AIMessage) \<times> world"
where
  "invoke_llm_attempts ag l messages attempt last_error w =
     (if int attempt < max_retries (self_config ag) then
        (case l (calls w) messages of
           Inr response \<Rightarrow> (Inr (as_AIMessage response), w\<lparr>calls := calls w + 1\<rparr>)
         | Inl e \<Rightarrow>
             (if int attempt < max_retries (self_config ag) - 1 then
                invoke_llm_attempts ag l messages (attempt + 1) (Some e)
                  (w\<lparr>calls := calls w + 1, sleeps := sleeps w @ [2 ^ attempt * 0.5]\<rparr>)
              else
                invoke_llm_attempts ag l messages (attempt + 1) (Some e)
                  (w\<lparr>calls := calls w + 1\<rparr>)))
      else
        (Inl (AgentError LLM_ERROR (llm_error_message (max_retries (self_config ag)) last_error)
                (Some (self_agent_id ag)) (Some (self_agent_type ag)) last_error), w))"
  by pat_completeness auto
termination
  by (relation "measure (\<lambda>(ag, l, messages, attempt, last_error, w).
         nat (max_retries (self_config ag) - int attempt))") auto

declare invoke_llm_attempts.simps [simp del]

definition select_llm :: "agent \<Rightarrow> bool \<Rightarrow> llm" where
  \<comment> \<open>\<^verbatim>\<open>self.llm_with_tools if use_tools and self.tools else self.llm\<close>\<close>
  "select_llm ag use_tools =
     (if use_tools \<and> self_tools ag \<noteq> [] then self_llm_with_tools ag else self_llm ag)"

definition invoke_llm :: "agent \<Rightarrow> message list \<Rightarrow> bool \<Rightarrow> world \<Rightarrow> (exn + AIMessage) \<times> world" where
  "invoke_llm ag messages use_tools w =
     invoke_llm_attempts ag (select_llm ag use_tools) messages 0 None w"

subsection \<open>BaseAgent.execute_tool and ReActAgent._execute_tool_calls\<close>

definition execute_tool :: "agent \<Rightarrow> string \<Rightarrow> pydict \<Rightarrow> world \<Rightarrow> (exn + pyval) \<times> world" where
  "execute_tool ag tool_name arguments w =
     (case get_tool ag tool_name of
        None \<Rightarrow>
          (Inl (AgentError TOOL_EXECUTION_FAILED
                  (''Tool '' @ [CHR 0x27] @ tool_name @ [CHR 0x27] @ '' not found'')
                  (Some (self_agent_id ag)) (Some (self_agent_type ag)) None), w)
      | Some t \<Rightarrow>
          (case ainvoke t (calls w) arguments of
             Inr r \<Rightarrow> (Inr r, w\<lparr>calls := calls w + 1\<rparr>)
           | Inl e \<Rightarrow>
               (Inl (AgentError TOOL_EXECUTION_FAILED
                       (''Tool '' @ [CHR 0x27] @ tool_name @ [CHR 0x27] @
                        '' execution failed: '' @ exn_str e)
                       (Some (self_agent_id ag)) (Some (self_agent_type ag)) (Some e)),
                w\<lparr>calls := calls w + 1\<rparr>)))"

fun execute_tool_calls ::
  "agent \<Rightarrow> tool_call list \<Rightarrow> world \<Rightarrow> (exn + pyval list) \<times> world"
where
  "execute_tool_calls ag [] w = (Inr [], w)"
| "execute_tool_calls ag (tc # tcs) w =
     (let tool_name = (case tc_name tc of None \<Rightarrow> [] | Some n \<Rightarrow> n);
          arguments = (case tc_args tc of None \<Rightarrow> [] | Some a \<Rightarrow> a);
          (r, w') = execute_tool ag tool_name arguments w
      in case (case r of
                 Inr v \<Rightarrow> Inr v
               | Inl e \<Rightarrow> if is_AgentError e then Inr (PStr (''Error: '' @ exn_str e))
                          else Inl e) of
           Inl e \<Rightarrow> (Inl e, w')
         | Inr v \<Rightarrow>
             (case execute_tool_calls ag tcs w' of
                (Inl e, w'') \<Rightarrow> (Inl e, w'')
              | (Inr rs, w'') \<Rightarrow> (Inr (v # rs), w'')))"

subsection \<open>ReActAgent.execute\<close>

text \<open>
  The \<^verbatim>\<open>while not current_state.get("should_end", False)\<close> loop (base.py, lines
  298-351), one recursive call per pass. The guard on the iteration count raises
  \<^verbatim>\<open>AgentError(MAX_ITERATIONS_EXCEEDED, ...)\<close>; building its message reads
  \<^verbatim>\<open>current_state['max_iterations']\<close>, a \<^verbatim>\<open>KeyError\<close> when the key is absent and the
  default 10 was compared. The dictionary comprehension over the tool calls reads
  \<^verbatim>\<open>tc["name"]\<close>, a \<^verbatim>\<open>KeyError\<close> for a tool call without a name.
\<close>

definition get_should_end :: "AgentState \<Rightarrow> bool" where
  "get_should_end st = (case st_should_end st of None \<Rightarrow> False | Some b \<Rightarrow> b)"

definition get_iteration_count :: "AgentState \<Rightarrow> int" where
  "get_iteration_count st = (case st_iteration_count st of None \<Rightarrow> 0 | Some i \<Rightarrow> i)"

definition get_max_iterations :: "AgentState \<Rightarrow> int" where
  "get_max_iterations st = (case st_max_iterations st of None \<Rightarrow> 10 | Some m \<Rightarrow> m)"

definition get_messages :: "AgentState \<Rightarrow> message list" where
  "get_messages st = (case st_messages st of None \<Rightarrow> [] | Some ms \<Rightarrow> ms)"

definition get_tool_results :: "AgentState \<Rightarrow> pydict" where
  "get_tool_results st = (case st_tool_results st of None \<Rightarrow> [] | Some d \<Rightarrow> d)"

definition max_iterations_error :: "agent \<Rightarrow> AgentState \<Rightarrow> exn" where
  "max_iterations_error ag current_state =
     (case st_max_iterations current_state of
        None \<Rightarrow> PyException KeyError ([CHR 0x27] @ ''max_iterations'' @ [CHR 0x27])
      | Some m \<Rightarrow>
          AgentError MAX_ITERATIONS_EXCEEDED (''Max iterations ('' @ str_int m @ '') exceeded'')
            (Some (self_agent_id ag)) (Some (self_agent_type ag)) None)"

fun tool_result_entries :: "(tool_call \<times> pyval) list \<Rightarrow> exn + pydict" where
  "tool_result_entries [] = Inr []"
| "tool_result_entries ((tc, r) # rest) =
     (case tc_name tc of
        None \<Rightarrow> Inl (PyException KeyError ([CHR 0x27] @ ''name'' @ [CHR 0x27]))
      | Some n \<Rightarrow>
          (case tool_result_entries rest of
             Inl e \<Rightarrow> Inl e
           | Inr d \<Rightarrow> Inr ((n, r) # d)))"

definition tool_messages :: "agent \<Rightarrow> (tool_call \<times> pyval) list \<Rightarrow> message list" where
  "tool_messages ag pairs =
     map (\<lambda>(tc, r). ToolMessage (py_str ag r) (case tc_id tc of None \<Rightarrow> [] | Some i \<Rightarrow> i)) pairs"

function react_loop ::
  "agent \<Rightarrow> AgentState \<Rightarrow> Decision list \<Rightarrow> world
     \<Rightarrow> (exn + (AgentState \<times> Decision list)) \<times> world"
where
  "react_loop ag current_state decs w =
     (if get_should_end current_state then (Inr (current_state, decs), w)
      else if get_iteration_count current_state \<ge> get_max_iterations current_state then
        (Inl (max_iterations_error ag current_state), w)
      else
        (case invoke_llm ag (get_messages current_state) True w of
           (Inl e, w1) \<Rightarrow> (Inl e, w1)
         | (Inr response, w1) \<Rightarrow>
             (if tool_calls response \<noteq> [] then
                (case execute_tool_calls ag (tool_calls response) w1 of
                   (Inl e, w2) \<Rightarrow> (Inl e, w2)
                 | (Inr tool_results, w2) \<Rightarrow>
                     (case tool_result_entries (zip (tool_calls response) tool_results) of
                        Inl e \<Rightarrow> (Inl e, w2)
                      | Inr entries \<Rightarrow>
                          react_loop ag
                            (current_state
                               \<lparr> st_messages :=
                                   Some (get_messages current_state @ [AIMsg response] @
                                         tool_messages ag (zip (tool_calls response) tool_results)),
                                 st_iteration_count := Some (get_iteration_count current_state + 1),
                                 st_tool_results :=
                                   Some (dict_update (get_tool_results current_state)
                                           (dict_update [] entries)) \<rparr>)
                            decs w2))
              else
                (case extract_result ag response current_state of
                   Inl e \<Rightarrow> (Inl e, w1)
                 | Inr (res, extracted_decisions) \<Rightarrow>
                     react_loop ag
                       (current_state
                          \<lparr> st_messages := Some (get_messages current_state @ [AIMsg response]),
                            st_should_end := Some True,
                            st_iteration_count := Some (get_iteration_count current_state + 1) \<rparr>)
                       (decs @ extracted_decisions) w1))))"
  by pat_completeness auto
termination
  by (relation "measure (\<lambda>(ag, st, decs, w).
         if get_should_end st then 0
         else 1 + nat (get_max_iterations st - get_iteration_count st))")
     (auto simp: get_should_end_def get_max_iterations_def get_iteration_count_def)

declare react_loop.simps [simp del]

definition final_result :: "AgentState \<Rightarrow> pydict" where
  "final_result current_state =
     [(''response'', PStr (if get_messages current_state \<noteq> []
                           then message_content (last (get_messages current_state)) else [])),
      (''tool_results'', PDict (get_tool_results current_state)),
      (''iteration_count'', PInt (get_iteration_count current_state))]"

definition react_execute ::
  "agent \<Rightarrow> AgentState \<Rightarrow> AgentInput \<Rightarrow> world \<Rightarrow> (exn + (pydict \<times> Decision list)) \<times> world"
where
  "react_execute ag state agent_input w =
     (case react_loop ag state [] w of
        (Inl e, w') \<Rightarrow> (Inl e, w')
      | (Inr (current_state, decs), w') \<Rightarrow> (Inr (final_result current_state, decs), w'))"

definition react_extract_result ::
  "AIMessage \<Rightarrow> AgentState \<Rightarrow> exn + (pydict \<times> Decision list)"
where
  \<comment> \<open>the default \<^verbatim>\<open>ReActAgent.extract_result\<close>\<close>
  "react_extract_result response state = Inr ([(''content'', PStr (ai_content response))], [])"

subsection \<open>BaseAgent.run\<close>

text \<open>
  \<^verbatim>\<open>run\<close> (base.py, lines 81-127). \<^verbatim>\<open>execute\<close> is the abstract method, given by the
  subclass. The handler \<^verbatim>\<open>except AgentError: raise\<close> comes first, so an
  \<^verbatim>\<open>AgentError\<close> leaves \<^verbatim>\<open>run\<close>; every other exception becomes a FAILED output.
\<close>

type_synonym execute_method =
  "AgentState \<Rightarrow> AgentInput \<Rightarrow> world \<Rightarrow> (exn + (pydict \<times> Decision list)) \<times> world"

definition time_time :: "agent \<Rightarrow> world \<Rightarrow> real \<times> world" where
  "time_time ag w = (clock ag (calls w), w\<lparr>calls := calls w + 1\<rparr>)"

definition run :: "agent \<Rightarrow> execute_method \<Rightarrow> AgentInput \<Rightarrow> world \<Rightarrow> (exn + AgentOutput) \<times> world" where
  "run ag execute agent_input w =
     (let (start_time, w0) = time_time ag w
      in case (case validate_input ag agent_input of
                 Inl e \<Rightarrow> (Inl e, w0)
               | Inr u \<Rightarrow> execute (prepare_initial_state ag agent_input) agent_input w0) of
           (Inr (res, decs), w1) \<Rightarrow>
             (let (now, w2) = time_time ag w1
              in (Inr \<lparr> out_task_id = task_id agent_input,
                        out_agent_id = self_agent_id ag,
                        out_agent_type = self_agent_type ag,
                        status = COMPLETED,
                        result = res,
                        decisions = decs,
                        error = None,
                        execution_time_ms = (now - start_time) * 1000,
                        token_usage = [] \<rparr>, w2))
         | (Inl e, w1) \<Rightarrow>
             (if is_AgentError e then (Inl e, w1)
              else
                (let (now, w2) = time_time ag w1
                 in (Inr \<lparr> out_task_id = task_id agent_input,
                           out_agent_id = self_agent_id ag,
                           out_agent_type = self_agent_type ag,
                           status = FAILED,
                           result = [],
                           decisions = [],
                           error = Some (exn_str e),
                           execution_time_ms = (now - start_time) * 1000,
                           token_usage = [] \<rparr>, w2))))"

subsection \<open>Extracting the JSON text of a model response\<close>

text \<open>
  \<^verbatim>\<open>StrategyAnalyzerAgent.extract_result\<close> (strategy_analyzer.py, lines 68-74) and
  \<^verbatim>\<open>PlanAndExecuteAgent.create_plan\<close> (base.py, lines 445-448) select the text to parse
  with the same three branches. \<^verbatim>\<open>json.loads\<close> is Python's library function; the
  definitions take it as the parameter \<open>json_loads\<close>, \<open>None\<close> standing for
  \<^verbatim>\<open>JSONDecodeError\<close>.
\<close>

definition then_do :: "exn + 'a \<Rightarrow> ('a \<Rightarrow> exn + 'b) \<Rightarrow> exn + 'b" where
  "then_do r f = (case r of Inl e \<Rightarrow> Inl e | Inr x \<Rightarrow> f x)"

definition json_fence :: string where
  "json_fence = [CHR 0x60, CHR 0x60, CHR 0x60] @ ''json''"

definition fence :: string where
  "fence = [CHR 0x60, CHR 0x60, CHR 0x60]"

definition json_candidate :: "string \<Rightarrow> exn + string" where
  "json_candidate content =
     (if py_in json_fence content then
        then_do (py_split content json_fence) (\<lambda>ps.
        then_do (py_index ps 1) (\<lambda>p.
        then_do (py_split p fence) (\<lambda>qs. py_index qs 0)))
      else if py_in fence content then
        then_do (py_split content fence) (\<lambda>ps.
        then_do (py_index ps 1) (\<lambda>p.
        then_do (py_split p fence) (\<lambda>qs. py_index qs 0)))
      else Inr content)"

definition exn_class_of :: "exn \<Rightarrow> exn_class option" where
  "exn_class_of e = (case e of PyException c m \<Rightarrow> Some c | AgentError c m a t x \<Rightarrow> None)"

subsection \<open>StrategyAnalyzerAgent.extract_result\<close>

definition decision_type_map :: "(string \<times> DecisionType) list" where
  "decision_type_map = [(''buy'', BUY), (''sell'', SELL), (''hold'', HOLD), (''observe'', OBSERVE)]"

definition decision_type_of :: "pyval \<Rightarrow> exn + DecisionType" where
  \<comment> \<open>\<^verbatim>\<open>decision_type_map.get(key, DecisionType.HOLD)\<close>; a list or a dictionary is not
      hashable\<close>
  "decision_type_of key =
     (case key of
        PStr s \<Rightarrow> Inr (case map_of decision_type_map s of None \<Rightarrow> HOLD | Some d \<Rightarrow> d)
      | PList xs \<Rightarrow> Inl (PyException TypeError ''unhashable type'')
      | PDict d \<Rightarrow> Inl (PyException TypeError ''unhashable type'')
      | _ \<Rightarrow> Inr HOLD)"

definition strategy_try_body ::
  "(string \<Rightarrow> pyval option) \<Rightarrow> string \<Rightarrow> AgentState \<Rightarrow> exn + (pydict \<times> Decision list)"
where
  "strategy_try_body json_loads content state =
     then_do (json_candidate content) (\<lambda>json_str.
       case json_loads (py_strip json_str) of
         None \<Rightarrow> Inl (PyException JSONDecodeError ''Expecting value'')
       | Some (PDict res) \<Rightarrow>
           then_do (decision_type_of (dict_get res ''decision'' (PStr ''hold''))) (\<lambda>dt.
             Inr (res,
                  [\<lparr> decision_type = dt,
                     symbol = dict_get (case st_task_input state of None \<Rightarrow> [] | Some d \<Rightarrow> d)
                                ''symbol'' (PStr ''UNKNOWN''),
                     confidence = dict_get res ''confidence'' (PFloat 0.5),
                     reasoning = dict_get res ''reasoning'' (PList []),
                     risk_factors = dict_get res ''risk_factors'' (PList []),
                     supporting_data = get_tool_results state,
                     recommended_action = dict_get res ''recommended_action'' (PStr []) \<rparr>]))
       | Some other \<Rightarrow> Inl (PyException AttributeError ''object has no attribute get''))"

definition strategy_extract_result ::
  "(string \<Rightarrow> pyval option) \<Rightarrow> AIMessage \<Rightarrow> AgentState \<Rightarrow> exn + (pydict \<times> Decision list)"
where
  "strategy_extract_result json_loads response state =
     (let content = ai_content response
      in case strategy_try_body json_loads content state of
           Inr x \<Rightarrow> Inr x
         | Inl e \<Rightarrow>
             (if exn_class_of e \<in> {Some JSONDecodeError, Some IndexError, Some KeyError}
              then Inr ([(''raw_response'', PStr content)], [])
              else Inl e))"

subsection \<open>PlanAndExecuteAgent.create_plan\<close>

definition single_step_plan :: "AgentInput \<Rightarrow> pyval" where
  "single_step_plan agent_input =
     PList [PDict [(''step'', PInt 1), (''action'', PStr ''Execute task directly''),
                   (''task'', PDict (input_content agent_input))]]"

definition plan_try_body :: "(string \<Rightarrow> pyval option) \<Rightarrow> string \<Rightarrow> exn + pyval" where
  "plan_try_body json_loads content =
     then_do (json_candidate content) (\<lambda>content.
       case json_loads content of
         None \<Rightarrow> Inl (PyException JSONDecodeError ''Expecting value'')
       | Some (PDict plan_data) \<Rightarrow> Inr (dict_get plan_data ''plan'' (PList []))
       | Some other \<Rightarrow> Inl (PyException AttributeError ''object has no attribute get''))"

definition create_plan ::
  "(string \<Rightarrow> pyval option) \<Rightarrow> agent \<Rightarrow> AgentInput \<Rightarrow> world \<Rightarrow> (exn + pyval) \<times> world"
where
  "create_plan json_loads ag agent_input w =
     (let plan_message = HumanMessage (plan_prompt ag (input_content agent_input));
          messages = [SystemMessage (self_system_prompt ag), plan_message]
      in case invoke_llm ag messages False w of
           (Inl e, w') \<Rightarrow> (Inl e, w')
         | (Inr response, w') \<Rightarrow>
             (case plan_try_body json_loads (ai_content response) of
                Inr plan \<Rightarrow> (Inr plan, w')
              | Inl e \<Rightarrow>
                  (if exn_class_of e = Some JSONDecodeError
                   then (Inr (single_step_plan agent_input), w')
                   else (Inl e, w'))))"

definition plan_messages :: "agent \<Rightarrow> AgentInput \<Rightarrow> message list" where
  \<comment> \<open>the two messages \<^verbatim>\<open>create_plan\<close> sends to the model\<close>
  "plan_messages ag agent_input =
     [SystemMessage (self_system_prompt ag),
      HumanMessage (plan_prompt ag (input_content agent_input))]"

section \<open>The parallel fan-out node (agents/workflows/engine.py)\<close>

text \<open>
  \<^verbatim>\<open>parallel_executor\<close>, the node function built by
  \<^verbatim>\<open>setup_parallel_then_aggregate\<close> (engine.py, lines 253-290). The engine treats the
  state as a plain dictionary (\<^verbatim>\<open>dict(state)\<close>, \<^verbatim>\<open>isinstance(result, dict)\<close>,
  \<^verbatim>\<open>"agent_outputs" in result\<close>), and so does the model. A handler, run under
  \<^verbatim>\<open>asyncio.gather(..., return_exceptions=True)\<close>, ends by raising or by returning a value.
  \<^verbatim>\<open>agent_outputs\<close> and \<^verbatim>\<open>agent_errors\<close> are declared dictionaries, but \<^verbatim>\<open>dict(v)\<close>
  and \<^verbatim>\<open>d.update(v)\<close> take a dictionary or any iterable whose elements are iterables of
  two items, a key and a value: \<open>as_dict\<close> follows them on every value of the model
  (iterating a string gives its characters, iterating a dictionary its keys). The
  dictionaries of the model have string keys: a pair whose key is hashable but not a string
  (\<^verbatim>\<open>None\<close>, a Boolean or a number), which Python would store, has no representation and
  is the one case where \<open>as_dict\<close> departs from Python; the theorems below are about
  dictionaries. The last
  statement, \<^verbatim>\<open>AgentState(**dict(state), agent_outputs=..., agent_errors=...)\<close>, passes
  each of the two keys twice when the incoming state already has it, which Python rejects
  with a \<^verbatim>\<open>TypeError\<close>.
\<close>

datatype outcome = Raised exn | Returned pyval

type_synonym handler = "pydict \<Rightarrow> outcome"

fun pair_items :: "pyval \<Rightarrow> exn + (pyval \<times> pyval)" where
  \<comment> \<open>the two items of an element of the sequence given to \<^verbatim>\<open>dict\<close> or \<^verbatim>\<open>update\<close>\<close>
  "pair_items (PList xs) =
     (case xs of
        [k, v] \<Rightarrow> Inr (k, v)
      | _ \<Rightarrow> Inl (PyException ValueError ''dictionary update sequence element has wrong length''))"
| "pair_items (PStr s) =
     (case s of
        [a, b] \<Rightarrow> Inr (PStr [a], PStr [b])
      | _ \<Rightarrow> Inl (PyException ValueError ''dictionary update sequence element has wrong length''))"
| "pair_items (PDict d) =
     (case dict_keys d of
        [a, b] \<Rightarrow> Inr (PStr a, PStr b)
      | _ \<Rightarrow> Inl (PyException ValueError ''dictionary update sequence element has wrong length''))"
| "pair_items other =
     Inl (PyException TypeError ''cannot convert dictionary update sequence element to a sequence'')"

fun store_pair :: "pyval \<times> pyval \<Rightarrow> pydict \<Rightarrow> exn + pydict" where
  "store_pair (PStr k, v) d = Inr (dict_set k v d)"
| "store_pair (PList xs, v) d = Inl (PyException TypeError ''unhashable type'')"
| "store_pair (PDict kv, v) d = Inl (PyException TypeError ''unhashable type'')"
| "store_pair (other, v) d = Inl (PyException TypeError ''key is not a string'')"

fun store_pairs :: "pyval list \<Rightarrow> pydict \<Rightarrow> exn + pydict" where
  "store_pairs [] d = Inr d"
| "store_pairs (x # xs) d =
     then_do (pair_items x) (\<lambda>kv. then_do (store_pair kv d) (store_pairs xs))"

definition as_dict :: "pyval \<Rightarrow> exn + pydict" where
  \<comment> \<open>\<^verbatim>\<open>dict(v)\<close>, and the entries \<^verbatim>\<open>d.update(v)\<close> stores\<close>
  "as_dict v =
     (case v of
        PDict d \<Rightarrow> Inr d
      | PList xs \<Rightarrow> store_pairs xs []
      | PStr s \<Rightarrow> store_pairs (map (\<lambda>c. PStr [c]) s) []
      | _ \<Rightarrow> Inl (PyException TypeError ''object is not iterable''))"

fun merge_results :: "(string \<times> outcome) list \<Rightarrow> pydict \<Rightarrow> pydict \<Rightarrow> exn + (pydict \<times> pydict)" where
  "merge_results [] new_outputs new_errors = Inr (new_outputs, new_errors)"
| "merge_results ((agent_id, r) # rest) new_outputs new_errors =
     (case r of
        Raised e \<Rightarrow>
          merge_results rest new_outputs (dict_set agent_id (PStr (exn_str e)) new_errors)
      | Returned (PDict res) \<Rightarrow>
          (if dict_contains ''agent_outputs'' res then
             (case as_dict (dict_get res ''agent_outputs'' (PDict [])) of
                Inl e \<Rightarrow> Inl e
              | Inr d \<Rightarrow> merge_results rest (dict_update new_outputs d) new_errors)
           else merge_results rest (dict_set agent_id (PDict res) new_outputs) new_errors)
      | Returned other \<Rightarrow> merge_results rest new_outputs new_errors)"

definition parallel_executor ::
  "string list \<Rightarrow> (string \<rightharpoonup> handler) \<Rightarrow> pydict \<Rightarrow> exn + pydict"
where
  "parallel_executor parallel_agents agent_handlers state =
     (let tasks = concat (map (\<lambda>agent_id. case agent_handlers agent_id of
                                             None \<Rightarrow> []
                                           | Some handler \<Rightarrow> [handler state])
                              parallel_agents)
      in if tasks = [] then Inr state
         else
           (let results = tasks
            in then_do (as_dict (dict_get state ''agent_outputs'' (PDict []))) (\<lambda>new_outputs.
               then_do (as_dict (dict_get state ''agent_errors'' (PDict []))) (\<lambda>new_errors.
               then_do (merge_results (zip parallel_agents results) new_outputs new_errors)
                 (\<lambda>(new_outputs, new_errors).
                    if dict_contains ''agent_outputs'' state \<or> dict_contains ''agent_errors'' state
                    then Inl (PyException TypeError ''got multiple values for keyword argument'')
                    else Inr (state @ [(''agent_outputs'', PDict new_outputs),
                                       (''agent_errors'', PDict new_errors)]))))))"

text \<open>
  The entries the merge loop records when each agent's handler ends with the outcome
  \<open>f a\<close> and no returned dictionary has the key \<^verbatim>\<open>agent_outputs\<close>: an output entry
  per handler that returned, an error entry per handler that raised.
\<close>

definition success_entries :: "(string \<Rightarrow> outcome) \<Rightarrow> string list \<Rightarrow> pydict" where
  "success_entries f agents =
     concat (map (\<lambda>a. case f a of Returned v \<Rightarrow> [(a, v)] | Raised e \<Rightarrow> []) agents)"

definition error_entries :: "(string \<Rightarrow> outcome) \<Rightarrow> string list \<Rightarrow> pydict" where
  "error_entries f agents =
     concat (map (\<lambda>a. case f a of Raised e \<Rightarrow> [(a, PStr (exn_str e))] | Returned v \<Rightarrow> [])
                 agents)"

section \<open>The tool registry (agents/tools/base.py)\<close>

datatype ToolCategory =
    DATA_FETCH | DATA_ANALYSIS | CALCULATION | MARKET_DATA | NEWS | TECHNICAL | FUNDAMENTAL
  | RISK | NOTIFICATION | UTILITY

record ToolMetadata =
  md_name :: string
  md_description :: string
  md_category :: ToolCategory
  md_version :: string
  md_author :: string
  md_tags :: "string list"
  md_requires_api_key :: bool
  md_rate_limit :: "int option"

text \<open>
  The registry holds two dictionaries keyed by tool name, \<^verbatim>\<open>_tools\<close> and
  \<^verbatim>\<open>_metadata\<close>. \<^verbatim>\<open>register\<close> stores the metadata only when one is given.
\<close>

record ToolRegistry =
  reg_tools :: "(string \<times> BaseTool) list"
  reg_metadata :: "(string \<times> ToolMetadata) list"

definition new_ToolRegistry :: ToolRegistry where
  "new_ToolRegistry = \<lparr> reg_tools = [], reg_metadata = [] \<rparr>"

definition register :: "ToolRegistry \<Rightarrow> BaseTool \<Rightarrow> ToolMetadata option \<Rightarrow> ToolRegistry" where
  "register r t md =
     (let r1 = r\<lparr>reg_tools := AList.update (bt_name t) t (reg_tools r)\<rparr>
      in case md of
           None \<Rightarrow> r1
         | Some m \<Rightarrow> r1\<lparr>reg_metadata := AList.update (bt_name t) m (reg_metadata r1)\<rparr>)"

definition unregister :: "ToolRegistry \<Rightarrow> string \<Rightarrow> ToolRegistry" where
  "unregister r nm =
     r\<lparr>reg_tools := AList.delete nm (reg_tools r),
       reg_metadata := AList.delete nm (reg_metadata r)\<rparr>"

definition get_metadata :: "ToolRegistry \<Rightarrow> string \<Rightarrow> ToolMetadata option" where
  "get_metadata r nm = map_of (reg_metadata r) nm"

definition default_metadata :: "string \<Rightarrow> ToolCategory \<Rightarrow> ToolMetadata" where
  \<comment> \<open>\<^verbatim>\<open>ToolMetadata(name, "", category)\<close> with the defaults of the dataclass\<close>
  "default_metadata nm category =
     \<lparr> md_name = nm, md_description = [], md_category = category, md_version = ''1.0.0'',
       md_author = [], md_tags = [], md_requires_api_key = False, md_rate_limit = None \<rparr>"

definition get_by_category :: "ToolRegistry \<Rightarrow> ToolCategory \<Rightarrow> BaseTool list" where
  "get_by_category r category =
     map snd (filter (\<lambda>(nm, t).
                md_category (case map_of (reg_metadata r) nm of
                               None \<Rightarrow> default_metadata nm category
                             | Some m \<Rightarrow> m) = category)
              (reg_tools r))"

section \<open>The agent factory (agents/core/factory.py)\<close>

text \<open>
  An agent class is its constructor, which may raise. \<^verbatim>\<open>AgentRegistry\<close> maps agent
  types to classes; the factory holds the two optional factory functions and the cache
  \<^verbatim>\<open>_instances\<close>.
\<close>

type_synonym agent_class = "AgentConfig \<Rightarrow> llm \<Rightarrow> BaseTool list option \<Rightarrow> exn + agent"

record AgentRegistry =
  reg_agents :: "AgentType \<rightharpoonup> agent_class"
  reg_agent_configs :: "string \<rightharpoonup> AgentConfig"

record AgentFactory =
  llm_factory :: "(string \<Rightarrow> exn + llm) option"
  tool_factory :: "(string list \<Rightarrow> exn + BaseTool list) option"
  instances :: "string \<rightharpoonup> agent"

fun agent_type_value :: "AgentType \<Rightarrow> string" where
  "agent_type_value STRATEGY_ANALYZER = ''strategy_analyzer''"
| "agent_type_value RISK_ASSESSOR = ''risk_assessor''"
| "agent_type_value SIGNAL_GENERATOR = ''signal_generator''"
| "agent_type_value DATA_COLLECTOR = ''data_collector''"
| "agent_type_value DATA_ANALYZER = ''data_analyzer''"
| "agent_type_value ORCHESTRATOR = ''orchestrator''"
| "agent_type_value SUPERVISOR = ''supervisor''"
| "agent_type_value TECHNICAL_ANALYST = ''technical_analyst''"
| "agent_type_value FUNDAMENTAL_ANALYST = ''fundamental_analyst''"
| "agent_type_value SENTIMENT_ANALYST = ''sentiment_analyst''"
| "agent_type_value NEWS_ANALYST = ''news_analyst''"

definition create ::
  "AgentRegistry \<Rightarrow> AgentFactory \<Rightarrow> AgentType \<Rightarrow> AgentConfig \<Rightarrow> llm option
     \<Rightarrow> BaseTool list option \<Rightarrow> exn + agent"
where
  "create agent_registry f agent_type config llm tools =
     (case reg_agents agent_registry agent_type of
        None \<Rightarrow>
          Inl (AgentError AGENT_NOT_FOUND
                 (''Agent type '' @ [CHR 0x27] @ agent_type_value agent_type @ [CHR 0x27] @
                  '' is not registered'')
                 None (Some agent_type) None)
      | Some agent_class \<Rightarrow>
          then_do
            (case llm of
               Some l \<Rightarrow> Inr l
             | None \<Rightarrow>
                 (case llm_factory f of
                    None \<Rightarrow>
                      Inl (AgentError AGENT_INITIALIZATION_FAILED
                             ''No LLM instance or factory provided'' None (Some agent_type) None)
                  | Some lf \<Rightarrow> lf (model_name config)))
            (\<lambda>llm.
          then_do
            (if tools = None \<and> allowed_tools config \<noteq> [] then
               (case tool_factory f of
                  Some tf \<Rightarrow> then_do (tf (allowed_tools config)) (\<lambda>ts. Inr (Some ts))
                | None \<Rightarrow> Inr (Some []))
             else Inr tools)
            (\<lambda>tools.
          case agent_class config llm tools of
            Inr agent \<Rightarrow> Inr agent
          | Inl e \<Rightarrow>
              Inl (AgentError AGENT_INITIALIZATION_FAILED
                     (''Failed to create agent: '' @ exn_str e) None (Some agent_type) (Some e)))))"

definition get_or_create ::
  "AgentRegistry \<Rightarrow> AgentFactory \<Rightarrow> AgentType \<Rightarrow> AgentConfig \<Rightarrow> llm option
     \<Rightarrow> BaseTool list option \<Rightarrow> (exn + agent) \<times> AgentFactory"
where
  "get_or_create agent_registry f agent_type config llm tools =
     (case instances f (cfg_agent_id config) of
        Some cached \<Rightarrow> (Inr cached, f)
      | None \<Rightarrow>
          (case create agent_registry f agent_type config llm tools of
             Inl e \<Rightarrow> (Inl e, f)
           | Inr agent \<Rightarrow>
               (Inr agent, f\<lparr>instances := (instances f)(cfg_agent_id config \<mapsto> agent)\<rparr>)))"

definition clear_cache :: "AgentFactory \<Rightarrow> AgentFactory" where
  "clear_cache f = f\<lparr>instances := Map.empty\<rparr>"

text \<open>
  A sequence of calls of \<^verbatim>\<open>get_or_create\<close> on one factory, each with its own arguments
  (the registry is a global that may change between calls); the result is the factory after
  the last call. A call that raises leaves the factory as it was.
\<close>

type_synonym factory_call =
  "AgentRegistry \<times> AgentType \<times> AgentConfig \<times> llm option \<times> BaseTool list option"

fun get_or_create_calls :: "AgentFactory \<Rightarrow> factory_call list \<Rightarrow> AgentFactory" where
  "get_or_create_calls f [] = f"
| "get_or_create_calls f ((agent_registry, agent_type, config, llm, tools) # rest) =
     get_or_create_calls (snd (get_or_create agent_registry f agent_type config llm tools)) rest"

section \<open>Example values\<close>

text \<open>
  Concrete configurations, models and inputs on which the theorems below are evaluated.
  \<open>json_loads_table\<close> lists the value of \<^verbatim>\<open>json.loads\<close> on the texts used in the
  examples; it is applied to no other text.
\<close>

definition example_config :: AgentConfig where
  "example_config =
     \<lparr> cfg_agent_id = ''analyst_1'', cfg_agent_type = STRATEGY_ANALYZER, name = ''analyst'',
       description = [], model_name = ''qwen3-max'', temperature = 0.7, max_tokens = 4096,
       max_retries = 3, timeout_seconds = 120, max_iterations = 10, allowed_tools = [],
       system_prompt = [], extra_config = [] \<rparr>"

definition timeout_exn :: exn where
  "timeout_exn = PyException RuntimeError ''request timed out''"

definition final_answer :: AIMessage where
  "final_answer = \<lparr> ai_content = ''done'', tool_calls = [] \<rparr>"

definition failing_llm :: llm where
  "failing_llm n messages = Inl timeout_exn"

definition flaky_llm :: llm where
  \<comment> \<open>the first two calls fail, every later call answers\<close>
  "flaky_llm n messages = (if n < 2 then Inl timeout_exn else Inr (RetAIMessage final_answer))"

definition answering_llm :: llm where
  "answering_llm n messages = Inr (RetAIMessage final_answer)"

definition example_agent :: "AgentConfig \<Rightarrow> llm \<Rightarrow> agent" where
  "example_agent config l =
     \<lparr> self_config = config, self_agent_type = STRATEGY_ANALYZER,
       default_system_prompt = ''You are an analyst'', self_llm = l, self_llm_with_tools = l,
       self_tools = [], format_task_message = task_type,
       extract_result = react_extract_result, plan_prompt = (\<lambda>task. ''Make a plan''),
       py_str = (\<lambda>v. ''value''), clock = real \<rparr>"

definition example_input :: AgentInput where
  "example_input =
     \<lparr> task_id = ''task_1'', task_type = ''strategy_analysis'',
       input_content = [(''symbol'', PStr ''600519'')], input_context = [], metadata = [] \<rparr>"

definition w0 :: world where
  "w0 = \<lparr> calls = 0, sleeps = [] \<rparr>"

definition empty_input :: AgentInput where
  \<comment> \<open>a request whose task id is the empty string\<close>
  "empty_input = example_input\<lparr>task_id := []\<rparr>"

definition no_iterations_config :: AgentConfig where
  "no_iterations_config = example_config\<lparr>max_iterations := 0\<rparr>"

definition example_class :: agent_class where
  "example_class config l ts = Inr (example_agent config l)"

definition example_registry :: AgentRegistry where
  "example_registry =
     \<lparr> reg_agents = [STRATEGY_ANALYZER \<mapsto> example_class], reg_agent_configs = Map.empty \<rparr>"

definition empty_registry :: AgentRegistry where
  "empty_registry = \<lparr> reg_agents = Map.empty, reg_agent_configs = Map.empty \<rparr>"

definition example_factory :: AgentFactory where
  "example_factory = \<lparr> llm_factory = None, tool_factory = None, instances = Map.empty \<rparr>"

definition other_config :: AgentConfig where
  \<comment> \<open>the same agent id with other settings\<close>
  "other_config =
     example_config\<lparr>cfg_agent_type := RISK_ASSESSOR, name := ''risk'', max_retries := 7\<rparr>"

definition second_config :: AgentConfig where
  \<comment> \<open>another agent id\<close>
  "second_config = example_config\<lparr>cfg_agent_id := ''analyst_2''\<rparr>"

definition risk_config :: AgentConfig where
  \<comment> \<open>a third agent id, of a type that \<open>example_registry\<close> does not hold\<close>
  "risk_config =
     example_config\<lparr>cfg_agent_id := ''risk_1'', cfg_agent_type := RISK_ASSESSOR\<rparr>"

definition search_tool :: BaseTool where
  "search_tool =
     \<lparr> bt_name = ''search_news'', bt_description = ''search the news'',
       ainvoke = (\<lambda>n arguments. Inr (PList [])) \<rparr>"

definition failing_execute :: execute_method where
  \<comment> \<open>an \<^verbatim>\<open>execute\<close> that raises an exception other than \<^verbatim>\<open>AgentError\<close>\<close>
  "failing_execute state agent_input w = (Inl (PyException ValueError ''bad value''), w)"

definition search_call :: tool_call where
  "search_call = \<lparr> tc_name = Some ''search_news'', tc_args = Some [], tc_id = Some ''call_1'' \<rparr>"

definition tool_calling_llm :: llm where
  \<comment> \<open>a model that asks for a tool call in every response\<close>
  "tool_calling_llm n messages =
     Inr (RetAIMessage \<lparr> ai_content = [], tool_calls = [search_call] \<rparr>)"

definition looping_agent :: agent where
  "looping_agent =
     (example_agent (example_config\<lparr>max_iterations := 2\<rparr>) tool_calling_llm)
       \<lparr>self_tools := [search_tool]\<rparr>"

definition workflow_state :: pydict where
  \<comment> \<open>an incoming state without the keys \<^verbatim>\<open>agent_outputs\<close> and \<^verbatim>\<open>agent_errors\<close>\<close>
  "workflow_state = [(''task_id'', PStr ''task_1''), (''task_type'', PStr ''analysis'')]"

definition prepared_workflow_state :: pydict where
  \<comment> \<open>an incoming state with both keys, empty, as \<^verbatim>\<open>_prepare_initial_state\<close> sets them\<close>
  "prepared_workflow_state =
     [(''task_id'', PStr ''task_1''), (''agent_outputs'', PDict []), (''agent_errors'', PDict [])]"

definition plain_handlers :: "string \<rightharpoonup> handler" where
  \<comment> \<open>two handlers return their own result dictionary, one raises\<close>
  "plain_handlers =
     [''technical'' \<mapsto> (\<lambda>state. Returned (PDict [(''trend'', PStr ''up'')])),
      ''sentiment'' \<mapsto> (\<lambda>state. Raised (PyException RuntimeError ''no data'')),
      ''fundamental'' \<mapsto> (\<lambda>state. Returned (PDict [(''rating'', PStr ''good'')]))]"

definition state_handlers :: "string \<rightharpoonup> handler" where
  \<comment> \<open>two handlers return a state whose \<^verbatim>\<open>agent_outputs\<close> holds their result under the key
      \<^verbatim>\<open>analysis\<close>, one raises\<close>
  "state_handlers =
     [''technical'' \<mapsto>
        (\<lambda>state. Returned (PDict [(''agent_outputs'', PDict [(''analysis'', PStr ''up'')])])),
      ''sentiment'' \<mapsto> (\<lambda>state. Raised (PyException RuntimeError ''no data'')),
      ''fundamental'' \<mapsto>
        (\<lambda>state. Returned (PDict [(''agent_outputs'', PDict [(''analysis'', PStr ''good'')])]))]"

definition analysis_json :: string where
  \<comment> \<open>the text \<^verbatim>\<open>{"confidence": 0.8}\<close>\<close>
  "analysis_json = ''{'' @ [CHR 0x22] @ ''confidence'' @ [CHR 0x22] @ '': 0.8}''"


definition sell_json :: string where
  \<comment> \<open>the text \<^verbatim>\<open>{"decision": "sell"}\<close>\<close>
  "sell_json =
     ''{'' @ [CHR 0x22] @ ''decision'' @ [CHR 0x22] @ '': '' @ [CHR 0x22] @ ''sell'' @ [CHR 0x22] @
     ''}''"

definition list_decision_json :: string where
  \<comment> \<open>the text \<^verbatim>\<open>{"decision": ["buy"]}\<close>\<close>
  "list_decision_json =
     ''{'' @ [CHR 0x22] @ ''decision'' @ [CHR 0x22] @ '': ['' @ [CHR 0x22] @ ''buy'' @ [CHR 0x22] @
     '']}''"

definition json_loads_table :: "string \<Rightarrow> pyval option" where
  "json_loads_table s =
     (if s = analysis_json then Some (PDict [(''confidence'', PFloat 0.8)])
      else if s = ''{}'' then Some (PDict [])
      else if s = ''[]'' then Some (PList [])
      else if s = sell_json then Some (PDict [(''decision'', PStr ''sell'')])
      else if s = list_decision_json then Some (PDict [(''decision'', PList [PStr ''buy''])])
      else None)"

definition empty_object_llm :: llm where
  \<comment> \<open>a model that answers the planning request with the JSON object \<^verbatim>\<open>{}\<close>\<close>
  "empty_object_llm n messages = Inr (RetAIMessage \<lparr> ai_content = ''{}'', tool_calls = [] \<rparr>)"

definition array_llm :: llm where
  \<comment> \<open>a model that answers with the JSON array \<^verbatim>\<open>[]\<close>\<close>
  "array_llm n messages = Inr (RetAIMessage \<lparr> ai_content = ''[]'', tool_calls = [] \<rparr>)"

definition example_state :: AgentState where
  "example_state =
     prepare_initial_state (example_agent example_config answering_llm) example_input"

section \<open>Verified properties\<close>

text \<open>
  C6. The tier of a decision is that of its confidence read as a number: a float as it is,
  an integer as that number, a Boolean as 1 or 0. The tier of a number \<open>c\<close> is
  \<open>VERY_HIGH\<close> exactly when \<open>c \<ge> 0.9\<close>, \<open>HIGH\<close> exactly when \<open>0.75 \<le> c < 0.9\<close>,
  \<open>MEDIUM\<close> exactly when \<open>0.5 \<le> c < 0.75\<close>, \<open>LOW\<close> exactly when \<open>0.25 \<le> c < 0.5\<close> and
  \<open>VERY_LOW\<close> exactly when \<open>c < 0.25\<close>; the four boundary values 0.9, 0.75, 0.5 and 0.25
  land in the higher tier. So an integer confidence is \<open>VERY_HIGH\<close> from 1 on and
  \<open>VERY_LOW\<close> up to 0, \<^verbatim>\<open>True\<close> is \<open>VERY_HIGH\<close> and \<^verbatim>\<open>False\<close> is \<open>VERY_LOW\<close>. A
  confidence that is not a number (\<^verbatim>\<open>None\<close>, a string, a list, a dictionary) has no tier:
  reading the property raises \<^verbatim>\<open>TypeError\<close>.
\<close>

theorem confidence_level_tiers:
  "(confidence_level c = VERY_HIGH \<longleftrightarrow> c \<ge> 0.9)
   \<and> (confidence_level c = HIGH \<longleftrightarrow> 0.75 \<le> c \<and> c < 0.9)
   \<and> (confidence_level c = MEDIUM \<longleftrightarrow> 0.5 \<le> c \<and> c < 0.75)
   \<and> (confidence_level c = LOW \<longleftrightarrow> 0.25 \<le> c \<and> c < 0.5)
   \<and> (confidence_level c = VERY_LOW \<longleftrightarrow> c < 0.25)
   \<and> confidence_level 0.9 = VERY_HIGH
   \<and> confidence_level 0.75 = HIGH
   \<and> confidence_level 0.5 = MEDIUM
   \<and> confidence_level 0.25 = LOW
   \<and> decision_confidence_level (d\<lparr>confidence := PFloat c\<rparr>) = Inr (confidence_level c)
   \<and> decision_confidence_level (d\<lparr>confidence := PInt i\<rparr>) = Inr (confidence_level (of_int i))
   \<and> decision_confidence_level (d\<lparr>confidence := PBool b\<rparr>)
       = Inr (confidence_level (if b then 1 else 0))
   \<and> (decision_confidence_level (d\<lparr>confidence := PInt i\<rparr>) = Inr VERY_HIGH \<longleftrightarrow> 1 \<le> i)
   \<and> (decision_confidence_level (d\<lparr>confidence := PInt i\<rparr>) = Inr VERY_LOW \<longleftrightarrow> i \<le> 0)
   \<and> decision_confidence_level (d\<lparr>confidence := PBool True\<rparr>) = Inr VERY_HIGH
   \<and> decision_confidence_level (d\<lparr>confidence := PBool False\<rparr>) = Inr VERY_LOW
   \<and> (\<exists>m. decision_confidence_level (d\<lparr>confidence := PNone\<rparr>)
            = Inl (PyException TypeError m))
   \<and> (\<exists>m. decision_confidence_level (d\<lparr>confidence := PStr s\<rparr>)
            = Inl (PyException TypeError m))
   \<and> (\<exists>m. decision_confidence_level (d\<lparr>confidence := PList xs\<rparr>)
            = Inl (PyException TypeError m))
   \<and> (\<exists>m. decision_confidence_level (d\<lparr>confidence := PDict kv\<rparr>)
            = Inl (PyException TypeError m))"
proof -
  have int_hi: "(9 / 10 \<le> (of_int i :: real)) \<longleftrightarrow> 1 \<le> i"
  proof
    assume "9 / 10 \<le> (of_int i :: real)"
    then have "(0::real) < of_int i" by simp
    then have "0 < i" by simp
    then show "1 \<le> i" by simp
  next
    assume "1 \<le> i"
    then have "(1::real) \<le> of_int i" by simp
    then show "9 / 10 \<le> (of_int i :: real)" by simp
  qed
  have int_lo: "((of_int i :: real) < 1 / 4) \<longleftrightarrow> i \<le> 0"
  proof
    assume "(of_int i :: real) < 1 / 4"
    then have "(of_int i :: real) < 1" by simp
    then have "i < 1" by simp
    then show "i \<le> 0" by simp
  next
    assume "i \<le> 0"
    then have "(of_int i :: real) \<le> 0" by simp
    then show "(of_int i :: real) < 1 / 4" by simp
  qed
  have lo_cases: "i \<le> 0 \<Longrightarrow> \<not> (9 / 10 \<le> (of_int i :: real)) \<and> \<not> (3 / 4 \<le> (of_int i :: real))
       \<and> \<not> (1 / 2 \<le> (of_int i :: real)) \<and> \<not> (1 / 4 \<le> (of_int i :: real))"
  proof -
    assume "i \<le> 0"
    then have "(of_int i :: real) \<le> 0" by simp
    then show ?thesis by simp
  qed
  show ?thesis
    using int_hi int_lo lo_cases
    by (auto simp add: confidence_level_def decision_confidence_level_def)
qed

subsection \<open>The retry loop of invoke_llm\<close>

lemma attempts_exhausted:
  "\<not> int k < max_retries (self_config ag) \<Longrightarrow>
   invoke_llm_attempts ag l ms k le w =
     (Inl (AgentError LLM_ERROR (llm_error_message (max_retries (self_config ag)) le)
            (Some (self_agent_id ag)) (Some (self_agent_type ag)) le), w)"
  by (subst invoke_llm_attempts.simps) simp

lemma attempts_bound:
  "invoke_llm_attempts ag l ms k le w = (r, w') \<Longrightarrow>
     calls w \<le> calls w' \<and> calls w' - calls w \<le> nat (max_retries (self_config ag)) - k
     \<and> (\<exists>n. sleeps w' = sleeps w @ map (\<lambda>i. 2 ^ i * 0.5) [k..<k + n])"
proof (induction ag l ms k le w arbitrary: r w' rule: invoke_llm_attempts.induct)
  case (1 ag l messages attempt last_error w)
  note unf = invoke_llm_attempts.simps[of ag l messages attempt last_error w]
  show ?case
  proof (cases "int attempt < max_retries (self_config ag)")
    case False
    with "1.prems" have "w' = w" by (simp add: unf)
    then show ?thesis by (auto intro: exI[of _ 0])
  next
    case True
    show ?thesis
    proof (cases "l (calls w) messages")
      case (Inr resp)
      with True "1.prems" have "w' = w\<lparr>calls := calls w + 1\<rparr>" by (auto simp add: unf)
      with True show ?thesis by (auto intro: exI[of _ 0])
    next
      case (Inl e)
      show ?thesis
      proof (cases "int attempt < max_retries (self_config ag) - 1")
        case t: True
        from "1.prems" True Inl t have
          "invoke_llm_attempts ag l messages (attempt + 1) (Some e)
             (w\<lparr>calls := calls w + 1, sleeps := sleeps w @ [2 ^ attempt * 0.5]\<rparr>) = (r, w')"
          by (simp add: unf)
        from "1.IH"(1)[OF True Inl t this] obtain n where
          a: "calls w + 1 \<le> calls w'" and b: "calls w' - (calls w + 1) \<le> nat (max_retries (self_config ag)) - (attempt + 1)"
          and c: "sleeps w' = (sleeps w @ [2 ^ attempt * 0.5]) @ map (\<lambda>i. 2 ^ i * 0.5) [attempt + 1..<attempt + 1 + n]"
          by auto
        have "[attempt..<attempt + Suc n] = attempt # [attempt + 1..<attempt + 1 + n]"
          by (simp add: upt_rec)
        with c have "sleeps w' = sleeps w @ map (\<lambda>i. 2 ^ i * 0.5) [attempt..<attempt + Suc n]"
          by simp
        with a b True show ?thesis by (auto intro: exI[of _ "Suc n"])
      next
        case f: False
        from "1.prems" True Inl f have
          "invoke_llm_attempts ag l messages (Suc attempt) (Some e) (w\<lparr>calls := calls w + 1\<rparr>) = (r, w')"
          by (simp add: unf)
        moreover from True f have "\<not> int (Suc attempt) < max_retries (self_config ag)" by simp
        ultimately have "w' = w\<lparr>calls := calls w + 1\<rparr>"
          by (simp add: attempts_exhausted)
        with True show ?thesis by (auto intro: exI[of _ 0])
      qed
    qed
  qed
qed

lemma attempts_all_fail:
  "calls w = c0 + k \<Longrightarrow>
   \<forall>j. k \<le> j \<and> int j < max_retries (self_config ag) \<longrightarrow> isl (l (c0 + j) ms) \<Longrightarrow>
   invoke_llm_attempts ag l ms k le w =
     (let R = nat (max_retries (self_config ag));
          le' = (if k < R then Some (projl (l (c0 + (R - 1)) ms)) else le)
      in (Inl (AgentError LLM_ERROR (llm_error_message (max_retries (self_config ag)) le')
                (Some (self_agent_id ag)) (Some (self_agent_type ag)) le'),
          w\<lparr>calls := c0 + max k R, sleeps := sleeps w @ map (\<lambda>i. 2 ^ i * 0.5) [k..<R - 1]\<rparr>))"
proof (induction ag l ms k le w rule: invoke_llm_attempts.induct)
  case (1 ag l messages attempt last_error w)
  note unf = invoke_llm_attempts.simps[of ag l messages attempt last_error w]
  let ?R = "nat (max_retries (self_config ag))"
  note cw = \<open>calls w = c0 + attempt\<close>
  note fails = "1.prems"(2)
  show ?case
  proof (cases "int attempt < max_retries (self_config ag)")
    case False
    then have "\<not> attempt < ?R" "max attempt ?R = attempt" "[attempt..<?R - 1] = []" by auto
    with False cw show ?thesis by (simp add: unf Let_def)
  next
    case True
    with fails have "isl (l (c0 + attempt) messages)" by blast
    then obtain e where Inl: "l (calls w) messages = Inl e"
      using cw by (cases "l (calls w) messages") auto
    show ?thesis
    proof (cases "int attempt < max_retries (self_config ag) - 1")
      case t: True
      let ?w1 = "w\<lparr>calls := calls w + 1, sleeps := sleeps w @ [2 ^ attempt * 0.5]\<rparr>"
      have w1: "calls ?w1 = c0 + (attempt + 1)" using cw by simp
      have f1: "\<forall>j. attempt + 1 \<le> j \<and> int j < max_retries (self_config ag) \<longrightarrow> isl (l (c0 + j) messages)"
        using fails by auto
      from t have lt: "attempt + 1 < ?R" "attempt < ?R" by auto
      have upt: "[attempt..<?R - Suc 0] = attempt # [Suc attempt..<?R - Suc 0]"
        using lt by (simp add: upt_rec)
      have mx: "max (attempt + 1) ?R = ?R" "max attempt ?R = ?R" using lt by auto
      have "invoke_llm_attempts ag l messages attempt last_error w =
            invoke_llm_attempts ag l messages (attempt + 1) (Some e) ?w1"
        by (simp add: unf True Inl t)
      also note "1.IH"(1)[OF True Inl t w1 f1]
      finally show ?thesis using lt by (simp add: Let_def upt mx)
    next
      case f: False
      from True f have eq: "?R = attempt + 1" by auto
      have nx: "\<not> int (Suc attempt) < max_retries (self_config ag)" using f by simp
      have e: "projl (l (c0 + attempt) messages) = e" using Inl cw by simp
      have "invoke_llm_attempts ag l messages attempt last_error w =
            invoke_llm_attempts ag l messages (Suc attempt) (Some e) (w\<lparr>calls := calls w + 1\<rparr>)"
        by (simp add: unf True Inl f)
      also have "\<dots> = (Inl (AgentError LLM_ERROR (llm_error_message (max_retries (self_config ag)) (Some e))
                (Some (self_agent_id ag)) (Some (self_agent_type ag)) (Some e)), w\<lparr>calls := calls w + 1\<rparr>)"
        by (rule attempts_exhausted[OF nx])
      finally show ?thesis using cw by (simp add: Let_def eq e)
    qed
  qed
qed

lemma attempts_success:
  "calls w = c0 + k \<Longrightarrow> k \<le> j \<Longrightarrow> int j < max_retries (self_config ag) \<Longrightarrow>
   \<forall>i. k \<le> i \<and> i < j \<longrightarrow> isl (l (c0 + i) ms) \<Longrightarrow>
   l (c0 + j) ms = Inr resp \<Longrightarrow>
   invoke_llm_attempts ag l ms k le w =
     (Inr (as_AIMessage resp),
      w\<lparr>calls := c0 + j + 1, sleeps := sleeps w @ map (\<lambda>i. 2 ^ i * 0.5) [k..<j]\<rparr>)"
proof (induction ag l ms k le w rule: invoke_llm_attempts.induct)
  case (1 ag l messages attempt last_error w)
  note unf = invoke_llm_attempts.simps[of ag l messages attempt last_error w]
  note cw = \<open>calls w = c0 + attempt\<close>
  from "1.prems" have True: "int attempt < max_retries (self_config ag)" by simp
  show ?case
  proof (cases "attempt = j")
    case eq: True
    from "1.prems" cw True show ?thesis unfolding unf by (simp add: eq)
  next
    case False
    with "1.prems" have lt: "attempt < j" by simp
    with "1.prems" have "isl (l (c0 + attempt) messages)" by blast
    then obtain e where Inl: "l (calls w) messages = Inl e"
      using cw by (cases "l (calls w) messages") auto
    from lt "1.prems" have t: "int attempt < max_retries (self_config ag) - 1" by simp
    let ?w1 = "w\<lparr>calls := calls w + 1, sleeps := sleeps w @ [2 ^ attempt * 0.5]\<rparr>"
    have w1: "calls ?w1 = c0 + (attempt + 1)" using cw by simp
    have f1: "\<forall>i. attempt + 1 \<le> i \<and> i < j \<longrightarrow> isl (l (c0 + i) messages)"
      using "1.prems" by auto
    have upt: "[attempt..<j] = attempt # [Suc attempt..<j]"
      using lt by (simp add: upt_rec)
    have "invoke_llm_attempts ag l messages attempt last_error w =
            invoke_llm_attempts ag l messages (attempt + 1) (Some e) ?w1"
      by (simp add: unf True Inl t)
    also have "\<dots> = (Inr (as_AIMessage resp),
      ?w1\<lparr>calls := c0 + j + 1, sleeps := sleeps ?w1 @ map (\<lambda>i. 2 ^ i * 0.5) [attempt + 1..<j]\<rparr>)"
      using "1.IH"(1)[OF True Inl t w1 _ _ f1] lt "1.prems" by simp
    finally show ?thesis by (simp add: upt)
  qed
qed


lemma str_int_values: "str_int 0 = ''0''" "str_int 3 = ''3''"
  by code_simp+


text \<open>
  C7. \<^verbatim>\<open>invoke_llm\<close> calls the model at most \<open>max_retries\<close> times. The delays it sleeps
  are \<open>0.5 * 2 ^ k\<close> seconds for \<open>k = 0, 1, 2\<close> and so on, in this order, the \<open>k\<close>-th one after
  the failed attempt number \<open>k\<close> (counted from 0) and before the next attempt. If every
  attempt fails, the helper raises \<^verbatim>\<open>AgentError(LLM_ERROR)\<close> whose cause is the error of
  the last attempt, after exactly \<open>max_retries\<close> calls. If attempt \<open>j\<close> is the first to
  succeed, its response is returned and no further call is made.
\<close>

theorem invoke_llm_bounded_retry:
  assumes "invoke_llm ag ms use_tools w = (r, w')"
  shows "calls w \<le> calls w'
     \<and> calls w' - calls w \<le> nat (max_retries (self_config ag))
     \<and> (\<exists>n. sleeps w' = sleeps w @ map (\<lambda>k. 2 ^ k * 0.5) [0..<n])
     \<and> ((\<forall>k. k < nat (max_retries (self_config ag))
               \<longrightarrow> isl (select_llm ag use_tools (calls w + k) ms))
          \<longrightarrow> (\<exists>last_error.
                 last_error = (if 0 < max_retries (self_config ag)
                               then Some (projl (select_llm ag use_tools
                                      (calls w + (nat (max_retries (self_config ag)) - 1)) ms))
                               else None)
                 \<and> r = Inl (AgentError LLM_ERROR
                             (llm_error_message (max_retries (self_config ag)) last_error)
                             (Some (self_agent_id ag)) (Some (self_agent_type ag)) last_error)
                 \<and> calls w' = calls w + nat (max_retries (self_config ag))
                 \<and> sleeps w' = sleeps w @ map (\<lambda>k. 2 ^ k * 0.5)
                                             [0..<nat (max_retries (self_config ag)) - 1]))
     \<and> (\<forall>j response.
           j < nat (max_retries (self_config ag))
           \<and> (\<forall>k. k < j \<longrightarrow> isl (select_llm ag use_tools (calls w + k) ms))
           \<and> select_llm ag use_tools (calls w + j) ms = Inr response
           \<longrightarrow> r = Inr (as_AIMessage response)
               \<and> calls w' = calls w + j + 1
               \<and> sleeps w' = sleeps w @ map (\<lambda>k. 2 ^ k * 0.5) [0..<j])"
proof -
  let ?l = "select_llm ag use_tools"
  let ?R = "nat (max_retries (self_config ag))"
  from assms have run: "invoke_llm_attempts ag ?l ms 0 None w = (r, w')"
    by (simp add: invoke_llm_def)
  from attempts_bound[OF run]
  have bound: "calls w \<le> calls w'" "calls w' - calls w \<le> ?R"
    "\<exists>n. sleeps w' = sleeps w @ map (\<lambda>k. 2 ^ k * 0.5) [0..<n]"
    by auto
  have fail: "(\<forall>k. k < ?R \<longrightarrow> isl (?l (calls w + k) ms))
          \<longrightarrow> (\<exists>last_error.
                 last_error = (if 0 < max_retries (self_config ag)
                               then Some (projl (?l (calls w + (?R - 1)) ms)) else None)
                 \<and> r = Inl (AgentError LLM_ERROR
                             (llm_error_message (max_retries (self_config ag)) last_error)
                             (Some (self_agent_id ag)) (Some (self_agent_type ag)) last_error)
                 \<and> calls w' = calls w + ?R
                 \<and> sleeps w' = sleeps w @ map (\<lambda>k. 2 ^ k * 0.5) [0..<?R - 1])"
  proof
    assume a: "\<forall>k. k < ?R \<longrightarrow> isl (?l (calls w + k) ms)"
    then have "\<forall>j. 0 \<le> j \<and> int j < max_retries (self_config ag) \<longrightarrow> isl (?l (calls w + j) ms)"
      by auto
    from attempts_all_fail[of w "calls w" 0 ag ?l ms None, OF _ this] run
    show "\<exists>last_error.
                 last_error = (if 0 < max_retries (self_config ag)
                               then Some (projl (?l (calls w + (?R - 1)) ms)) else None)
                 \<and> r = Inl (AgentError LLM_ERROR
                             (llm_error_message (max_retries (self_config ag)) last_error)
                             (Some (self_agent_id ag)) (Some (self_agent_type ag)) last_error)
                 \<and> calls w' = calls w + ?R
                 \<and> sleeps w' = sleeps w @ map (\<lambda>k. 2 ^ k * 0.5) [0..<?R - 1]"
      by (auto simp: Let_def split: if_splits)
  qed
  have succ: "\<forall>j response.
           j < ?R \<and> (\<forall>k. k < j \<longrightarrow> isl (?l (calls w + k) ms)) \<and> ?l (calls w + j) ms = Inr response
           \<longrightarrow> r = Inr (as_AIMessage response)
               \<and> calls w' = calls w + j + 1
               \<and> sleeps w' = sleeps w @ map (\<lambda>k. 2 ^ k * 0.5) [0..<j]"
  proof (intro allI impI)
    fix j response
    assume a: "j < ?R \<and> (\<forall>k. k < j \<longrightarrow> isl (?l (calls w + k) ms)) \<and> ?l (calls w + j) ms = Inr response"
    then have j: "int j < max_retries (self_config ag)" by auto
    from a have f: "\<forall>i. 0 \<le> i \<and> i < j \<longrightarrow> isl (?l (calls w + i) ms)" by auto
    from a have s: "?l (calls w + j) ms = Inr response" by simp
    from attempts_success[of w "calls w" 0 j ag ?l ms response None, OF _ _ j f s] run
    show "r = Inr (as_AIMessage response)
               \<and> calls w' = calls w + j + 1
               \<and> sleeps w' = sleeps w @ map (\<lambda>k. 2 ^ k * 0.5) [0..<j]"
      by auto
  qed
  from bound fail succ show ?thesis by blast
qed

theorem invoke_llm_bounded_retry_witness:
  "isl (flaky_llm 0 []) \<and> isl (flaky_llm 1 [])
   \<and> flaky_llm 2 [] = Inr (RetAIMessage final_answer)
   \<and> invoke_llm (example_agent example_config flaky_llm) [] True w0
       = (Inr final_answer, \<lparr> calls = 3, sleeps = [0.5, 1] \<rparr>)
   \<and> isl (failing_llm 0 []) \<and> isl (failing_llm 1 []) \<and> isl (failing_llm 2 [])
   \<and> invoke_llm (example_agent example_config failing_llm) [] True w0
       = (Inl (AgentError LLM_ERROR
                 ''LLM invocation failed after 3 attempts: request timed out''
                 (Some ''analyst_1'') (Some STRATEGY_ANALYZER) (Some timeout_exn)),
          \<lparr> calls = 3, sleeps = [0.5, 1] \<rparr>)"
proof -
  let ?A = "example_agent example_config flaky_llm"
  let ?B = "example_agent example_config failing_llm"
  have R: "nat (max_retries (self_config ?A)) = 3" "nat (max_retries (self_config ?B)) = 3"
    by (simp_all add: example_agent_def example_config_def)
  have l: "select_llm ?A True = flaky_llm" "select_llm ?B True = failing_llm"
    by (simp_all add: select_llm_def example_agent_def)
  have c0: "calls w0 = 0" "sleeps w0 = []" by (simp_all add: w0_def)
  obtain r w' where h: "invoke_llm ?A [] True w0 = (r, w')" by (cases "invoke_llm ?A [] True w0")
  have pre: "(2::nat) < 3 \<and> (\<forall>k. k < 2 \<longrightarrow> isl (flaky_llm (0 + k) []))
      \<and> flaky_llm (0 + 2) [] = Inr (RetAIMessage final_answer)"
    by (simp add: flaky_llm_def)
  from invoke_llm_bounded_retry[OF h] have
    "\<forall>j response. j < 3 \<and> (\<forall>k. k < j \<longrightarrow> isl (flaky_llm (0 + k) []))
           \<and> flaky_llm (0 + j) [] = Inr response
           \<longrightarrow> r = Inr (as_AIMessage response) \<and> calls w' = 0 + j + 1
               \<and> sleeps w' = [] @ map (\<lambda>k. 2 ^ k * 0.5) [0..<j]"
    unfolding R l c0 by blast
  from this[rule_format, OF pre] have a: "r = Inr final_answer" "calls w' = 3" "sleeps w' = [0.5, 1]"
    by (simp_all add: as_AIMessage_def upt_rec)
  obtain r2 w2 where h2: "invoke_llm ?B [] True w0 = (r2, w2)" by (cases "invoke_llm ?B [] True w0")
  have pre2: "\<forall>k. k < 3 \<longrightarrow> isl (failing_llm (0 + k) [])" by (simp add: failing_llm_def)
  from invoke_llm_bounded_retry[OF h2] have
    "(\<forall>k. k < 3 \<longrightarrow> isl (failing_llm (0 + k) []))
          \<longrightarrow> (\<exists>last_error.
                 last_error = (if 0 < max_retries (self_config ?B)
                               then Some (projl (failing_llm (0 + (3 - 1)) [])) else None)
                 \<and> r2 = Inl (AgentError LLM_ERROR
                             (llm_error_message (max_retries (self_config ?B)) last_error)
                             (Some (self_agent_id ?B)) (Some (self_agent_type ?B)) last_error)
                 \<and> calls w2 = 0 + 3
                 \<and> sleeps w2 = [] @ map (\<lambda>k. 2 ^ k * 0.5) [0..<3 - 1])"
    unfolding R l c0 by blast
  with pre2 have b: "r2 = Inl (AgentError LLM_ERROR
                 ''LLM invocation failed after 3 attempts: request timed out''
                 (Some ''analyst_1'') (Some STRATEGY_ANALYZER) (Some timeout_exn))"
     "calls w2 = 3" "sleeps w2 = [0.5, 1]"
    by (simp_all add: example_agent_def example_config_def failing_llm_def llm_error_message_def
         self_agent_id_def timeout_exn_def str_int_values upt_rec)
  have w: "w' = \<lparr> calls = 3, sleeps = [0.5, 1] \<rparr>" "w2 = \<lparr> calls = 3, sleeps = [0.5, 1] \<rparr>"
    using a(2,3) b(2,3) by simp_all
  show ?thesis using h h2 a b w by (simp add: flaky_llm_def failing_llm_def)
qed

subsection \<open>BaseAgent.run\<close>

lemma run_invalid_input:
  "task_id agent_input = [] \<Longrightarrow>
   run ag execute agent_input w =
     (Inl (AgentError INVALID_INPUT ''Task ID is required''
             (Some (self_agent_id ag)) (Some (self_agent_type ag)) None),
      w\<lparr>calls := calls w + 1\<rparr>)"
  by (simp add: run_def validate_input_def time_time_def)

lemma run_valid_input:
  "task_id agent_input \<noteq> [] \<Longrightarrow>
   execute (prepare_initial_state ag agent_input) agent_input (w\<lparr>calls := calls w + 1\<rparr>) = (r, w1) \<Longrightarrow>
   run ag execute agent_input w =
     (case r of
        Inr (res, decs) \<Rightarrow>
          (Inr \<lparr> out_task_id = task_id agent_input, out_agent_id = self_agent_id ag,
                 out_agent_type = self_agent_type ag, status = COMPLETED, result = res,
                 decisions = decs, error = None,
                 execution_time_ms = (clock ag (calls w1) - clock ag (calls w)) * 1000,
                 token_usage = [] \<rparr>, w1\<lparr>calls := calls w1 + 1\<rparr>)
      | Inl e \<Rightarrow>
          if is_AgentError e then (Inl e, w1)
          else (Inr \<lparr> out_task_id = task_id agent_input, out_agent_id = self_agent_id ag,
                      out_agent_type = self_agent_type ag, status = FAILED, result = [],
                      decisions = [], error = Some (exn_str e),
                      execution_time_ms = (clock ag (calls w1) - clock ag (calls w)) * 1000,
                      token_usage = [] \<rparr>, w1\<lparr>calls := calls w1 + 1\<rparr>))"
  by (simp add: run_def validate_input_def time_time_def split: sum.splits prod.splits)

text \<open>
  C1, as the code has it. For every agent, every \<^verbatim>\<open>execute\<close> method and every task
  input, \<^verbatim>\<open>run\<close> either returns exactly one \<^verbatim>\<open>AgentOutput\<close>, whose status is
  COMPLETED or FAILED and which carries the task id, the agent id and the agent type, or
  raises an \<^verbatim>\<open>AgentError\<close>. It returns COMPLETED with the result and the decisions
  when \<^verbatim>\<open>execute\<close> returns; it returns FAILED with \<^verbatim>\<open>str(e)\<close>, an empty result and
  no decisions when \<^verbatim>\<open>execute\<close> raises an exception \<open>e\<close> that is not an
  \<^verbatim>\<open>AgentError\<close>; and every \<^verbatim>\<open>AgentError\<close> (the INVALID_INPUT error of validation,
  LLM_ERROR, MAX_ITERATIONS_EXCEEDED, any other raised by \<^verbatim>\<open>execute\<close>) leaves
  \<^verbatim>\<open>run\<close> unchanged, through the handler \<^verbatim>\<open>except AgentError: raise\<close>.
\<close>

theorem run_output_or_agent_error:
  "(case fst (run ag execute agent_input w) of
      Inr out \<Rightarrow> (status out = COMPLETED \<or> status out = FAILED)
                 \<and> out_task_id out = task_id agent_input
                 \<and> out_agent_id out = self_agent_id ag
                 \<and> out_agent_type out = self_agent_type ag
    | Inl e \<Rightarrow> is_AgentError e)
   \<and> (\<forall>res decs w1. task_id agent_input \<noteq> []
          \<and> execute (prepare_initial_state ag agent_input) agent_input
               (w\<lparr>calls := calls w + 1\<rparr>) = (Inr (res, decs), w1)
        \<longrightarrow> (\<exists>out. fst (run ag execute agent_input w) = Inr out \<and> status out = COMPLETED
                   \<and> result out = res \<and> decisions out = decs \<and> error out = None))
   \<and> (\<forall>e w1. task_id agent_input \<noteq> []
          \<and> execute (prepare_initial_state ag agent_input) agent_input
               (w\<lparr>calls := calls w + 1\<rparr>) = (Inl e, w1)
          \<and> \<not> is_AgentError e
        \<longrightarrow> (\<exists>out. fst (run ag execute agent_input w) = Inr out \<and> status out = FAILED
                   \<and> error out = Some (exn_str e) \<and> result out = [] \<and> decisions out = []))
   \<and> (\<forall>e w1. task_id agent_input \<noteq> []
          \<and> execute (prepare_initial_state ag agent_input) agent_input
               (w\<lparr>calls := calls w + 1\<rparr>) = (Inl e, w1)
          \<and> is_AgentError e
        \<longrightarrow> run ag execute agent_input w = (Inl e, w1))
   \<and> (task_id agent_input = []
        \<longrightarrow> (\<exists>e. fst (run ag execute agent_input w) = Inl e
                 \<and> error_code e = Some INVALID_INPUT))"
proof -
  let ?w0 = "w\<lparr>calls := calls w + 1\<rparr>"
  obtain r w1 where ex: "execute (prepare_initial_state ag agent_input) agent_input ?w0 = (r, w1)"
    by (cases "execute (prepare_initial_state ag agent_input) agent_input ?w0")
  show ?thesis
  proof (cases "task_id agent_input = []")
    case True
    then show ?thesis by (simp add: run_invalid_input)
  next
    case False
    note rv = run_valid_input[where execute = execute and ag = ag and w = w, OF False ex]
    show ?thesis using False ex
      by (cases r) (auto simp: rv)
  qed
qed

theorem run_output_or_agent_error_witness:
  "task_id example_input \<noteq> []
   \<and> (\<exists>out. fst (run (example_agent example_config answering_llm)
                    (react_execute (example_agent example_config answering_llm))
                    example_input w0) = Inr out
           \<and> status out = COMPLETED
           \<and> result out = [(''response'', PStr ''done''), (''tool_results'', PDict []),
                            (''iteration_count'', PInt 1)]
           \<and> decisions out = [] \<and> error out = None)
   \<and> \<not> is_AgentError (PyException ValueError ''bad value'')
   \<and> (\<exists>out. fst (run (example_agent example_config answering_llm) failing_execute
                    example_input w0) = Inr out
           \<and> status out = FAILED \<and> error out = Some ''bad value''
           \<and> result out = [] \<and> decisions out = [])
   \<and> is_AgentError (AgentError LLM_ERROR
          ''LLM invocation failed after 3 attempts: request timed out''
          (Some ''analyst_1'') (Some STRATEGY_ANALYZER) (Some timeout_exn))
   \<and> run (example_agent example_config failing_llm)
         (react_execute (example_agent example_config failing_llm)) example_input w0
       = (Inl (AgentError LLM_ERROR
                 ''LLM invocation failed after 3 attempts: request timed out''
                 (Some ''analyst_1'') (Some STRATEGY_ANALYZER) (Some timeout_exn)),
          \<lparr> calls = 4, sleeps = [0.5, 1] \<rparr>)
   \<and> task_id empty_input = []
   \<and> (\<exists>e. fst (run (example_agent example_config answering_llm)
                  (react_execute (example_agent example_config answering_llm))
                  empty_input w0) = Inl e
          \<and> error_code e = Some INVALID_INPUT)"
proof -
  let ?A = "example_agent example_config answering_llm"
  let ?B = "example_agent example_config failing_llm"
  let ?e = "AgentError LLM_ERROR ''LLM invocation failed after 3 attempts: request timed out''
              (Some ''analyst_1'') (Some STRATEGY_ANALYZER) (Some timeout_exn)"
  have ne: "task_id example_input \<noteq> []" by (simp add: example_input_def)
  have em: "task_id empty_input = []" by (simp add: empty_input_def)
  have e1: "react_execute ?A (prepare_initial_state ?A example_input) example_input
              (w0\<lparr>calls := calls w0 + 1\<rparr>)
            = (Inr ([(''response'', PStr ''done''), (''tool_results'', PDict []),
                     (''iteration_count'', PInt 1)], []), \<lparr> calls = 2, sleeps = [] \<rparr>)"
    by code_simp
  have e2: "failing_execute (prepare_initial_state ?A example_input) example_input
              (w0\<lparr>calls := calls w0 + 1\<rparr>)
            = (Inl (PyException ValueError ''bad value''), w0\<lparr>calls := calls w0 + 1\<rparr>)"
    by (simp add: failing_execute_def)
  have e3: "react_execute ?B (prepare_initial_state ?B example_input) example_input
              (w0\<lparr>calls := calls w0 + 1\<rparr>) = (Inl ?e, \<lparr> calls = 4, sleeps = [0.5, 1] \<rparr>)"
    by code_simp
  have n2: "\<not> is_AgentError (PyException ValueError ''bad value'')" by simp
  have a3: "is_AgentError ?e" by simp
  note t1 = run_output_or_agent_error[where ag = ?A and execute = "react_execute ?A"
              and agent_input = example_input and w = w0]
  note t2 = run_output_or_agent_error[where ag = ?A and execute = failing_execute
              and agent_input = example_input and w = w0]
  note t3 = run_output_or_agent_error[where ag = ?B and execute = "react_execute ?B"
              and agent_input = example_input and w = w0]
  note t4 = run_output_or_agent_error[where ag = ?A and execute = "react_execute ?A"
              and agent_input = empty_input and w = w0]
  from t1 ne e1 have c1: "\<exists>out. fst (run ?A (react_execute ?A) example_input w0) = Inr out
           \<and> status out = COMPLETED
           \<and> result out = [(''response'', PStr ''done''), (''tool_results'', PDict []),
                            (''iteration_count'', PInt 1)]
           \<and> decisions out = [] \<and> error out = None"
    by blast
  from t2 ne e2 n2 have c2: "\<exists>out. fst (run ?A failing_execute example_input w0) = Inr out
           \<and> status out = FAILED \<and> error out = Some (exn_str (PyException ValueError ''bad value''))
           \<and> result out = [] \<and> decisions out = []"
    by blast
  from t3 ne e3 a3 have c3: "run ?B (react_execute ?B) example_input w0
       = (Inl ?e, \<lparr> calls = 4, sleeps = [0.5, 1] \<rparr>)"
    by blast
  from t4 em have c4: "\<exists>e. fst (run ?A (react_execute ?A) empty_input w0) = Inl e
          \<and> error_code e = Some INVALID_INPUT"
    by blast
  from ne c1 n2 c2 a3 c3 em c4 show ?thesis by simp
qed

text \<open>
  The claim as stated, that no \<^verbatim>\<open>AgentError\<close> passes the boundary of \<^verbatim>\<open>run\<close>,
  fails: with a model whose every call fails, \<^verbatim>\<open>run\<close> of a ReAct agent raises the
  LLM_ERROR of \<^verbatim>\<open>invoke_llm\<close> and returns no output.
\<close>

theorem run_output_or_agent_error_counterexample:
  "run (example_agent example_config failing_llm)
       (react_execute (example_agent example_config failing_llm)) example_input w0
     = (Inl (AgentError LLM_ERROR
               ''LLM invocation failed after 3 attempts: request timed out''
               (Some ''analyst_1'') (Some STRATEGY_ANALYZER)
               (Some (PyException RuntimeError ''request timed out''))),
        \<lparr> calls = 4, sleeps = [0.5, 1] \<rparr>)"
  by code_simp

text \<open>
  C4, as the code has it. \<^verbatim>\<open>_validate_input\<close> raises
  \<^verbatim>\<open>AgentError(INVALID_INPUT, "Task ID is required")\<close> if and only if the task id is the
  empty string. With an empty task id \<^verbatim>\<open>run\<close> raises that error to its caller, after
  reading the clock once and without calling \<^verbatim>\<open>execute\<close>: nothing is retried and no
  output is returned. With a non-empty task id an error raised by \<^verbatim>\<open>run\<close> is one
  raised by \<^verbatim>\<open>execute\<close>.
\<close>

theorem validate_input_task_id:
  "(validate_input ag agent_input =
      Inl (AgentError INVALID_INPUT ''Task ID is required''
             (Some (self_agent_id ag)) (Some (self_agent_type ag)) None)
    \<longleftrightarrow> task_id agent_input = [])
   \<and> (validate_input ag agent_input = Inr () \<longleftrightarrow> task_id agent_input \<noteq> [])
   \<and> (task_id agent_input = []
      \<longrightarrow> run ag execute agent_input w =
            (Inl (AgentError INVALID_INPUT ''Task ID is required''
                    (Some (self_agent_id ag)) (Some (self_agent_type ag)) None),
             w\<lparr>calls := calls w + 1\<rparr>))
   \<and> (\<forall>e. task_id agent_input \<noteq> [] \<and> fst (run ag execute agent_input w) = Inl e
      \<longrightarrow> fst (execute (prepare_initial_state ag agent_input) agent_input
                 (w\<lparr>calls := calls w + 1\<rparr>)) = Inl e)"
proof -
  let ?w0 = "w\<lparr>calls := calls w + 1\<rparr>"
  obtain r w1 where ex: "execute (prepare_initial_state ag agent_input) agent_input ?w0 = (r, w1)"
    by (cases "execute (prepare_initial_state ag agent_input) agent_input ?w0")
  have v: "(validate_input ag agent_input =
      Inl (AgentError INVALID_INPUT ''Task ID is required''
             (Some (self_agent_id ag)) (Some (self_agent_type ag)) None)
    \<longleftrightarrow> task_id agent_input = [])
   \<and> (validate_input ag agent_input = Inr () \<longleftrightarrow> task_id agent_input \<noteq> [])"
    by (simp add: validate_input_def)
  have r: "\<forall>e. task_id agent_input \<noteq> [] \<and> fst (run ag execute agent_input w) = Inl e
      \<longrightarrow> fst (execute (prepare_initial_state ag agent_input) agent_input ?w0) = Inl e"
  proof (intro allI impI)
    fix e assume a: "task_id agent_input \<noteq> [] \<and> fst (run ag execute agent_input w) = Inl e"
    then have ne: "task_id agent_input \<noteq> []" by simp
    note rv = run_valid_input[where execute = execute and ag = ag and w = w, OF ne ex]
    from a ex show "fst (execute (prepare_initial_state ag agent_input) agent_input ?w0) = Inl e"
      by (cases r) (auto simp: rv split: if_splits)
  qed
  from v r show ?thesis by (simp add: run_invalid_input)
qed

theorem validate_input_task_id_witness:
  "task_id empty_input = []
   \<and> run (example_agent example_config answering_llm) failing_execute empty_input w0 =
       (Inl (AgentError INVALID_INPUT ''Task ID is required''
               (Some ''analyst_1'') (Some STRATEGY_ANALYZER) None),
        \<lparr> calls = 1, sleeps = [] \<rparr>)
   \<and> task_id example_input \<noteq> []
   \<and> fst (run (example_agent example_config failing_llm)
            (react_execute (example_agent example_config failing_llm)) example_input w0)
       = Inl (AgentError LLM_ERROR
                ''LLM invocation failed after 3 attempts: request timed out''
                (Some ''analyst_1'') (Some STRATEGY_ANALYZER) (Some timeout_exn))
   \<and> fst (react_execute (example_agent example_config failing_llm)
            (prepare_initial_state (example_agent example_config failing_llm) example_input)
            example_input (w0\<lparr>calls := calls w0 + 1\<rparr>))
       = Inl (AgentError LLM_ERROR
                ''LLM invocation failed after 3 attempts: request timed out''
                (Some ''analyst_1'') (Some STRATEGY_ANALYZER) (Some timeout_exn))"
proof -
  let ?A = "example_agent example_config answering_llm"
  let ?B = "example_agent example_config failing_llm"
  let ?e = "AgentError LLM_ERROR ''LLM invocation failed after 3 attempts: request timed out''
              (Some ''analyst_1'') (Some STRATEGY_ANALYZER) (Some timeout_exn)"
  have ne: "task_id example_input \<noteq> []" by (simp add: example_input_def)
  have em: "task_id empty_input = []" by (simp add: empty_input_def)
  from validate_input_task_id[where ag = ?A and execute = failing_execute
         and agent_input = empty_input and w = w0] em
  have c1: "run ?A failing_execute empty_input w0 =
       (Inl (AgentError INVALID_INPUT ''Task ID is required''
               (Some (self_agent_id ?A)) (Some (self_agent_type ?A)) None),
        w0\<lparr>calls := calls w0 + 1\<rparr>)"
    by blast
  have r: "fst (run ?B (react_execute ?B) example_input w0) = Inl ?e" by code_simp
  from validate_input_task_id[where ag = ?B and execute = "react_execute ?B"
         and agent_input = example_input and w = w0] ne r
  have c2: "fst (react_execute ?B (prepare_initial_state ?B example_input) example_input
                  (w0\<lparr>calls := calls w0 + 1\<rparr>)) = Inl ?e"
    by blast
  from c1 have c1': "run ?A failing_execute empty_input w0 =
       (Inl (AgentError INVALID_INPUT ''Task ID is required''
               (Some ''analyst_1'') (Some STRATEGY_ANALYZER) None),
        \<lparr> calls = 1, sleeps = [] \<rparr>)"
    by (simp add: self_agent_id_def example_agent_def example_config_def w0_def)
  from em c1' ne r c2 show ?thesis by simp
qed

text \<open>
  The claim as stated, that the failure is delivered as a FAILED output, fails: on an input
  with an empty task id \<^verbatim>\<open>run\<close> raises.
\<close>

theorem validate_input_task_id_counterexample:
  "run (example_agent example_config answering_llm)
       (react_execute (example_agent example_config answering_llm)) empty_input w0 =
     (Inl (AgentError INVALID_INPUT ''Task ID is required''
             (Some ''analyst_1'') (Some STRATEGY_ANALYZER) None),
      \<lparr> calls = 1, sleeps = [] \<rparr>)"
  by code_simp

subsection \<open>The ReAct loop\<close>

lemma react_loop_result:
  "react_loop ag st decs w = (Inr (st', decs'), w') \<Longrightarrow>
     get_should_end st' \<and> st_max_iterations st' = st_max_iterations st \<and>
     (if get_should_end st then st' = st \<and> decs' = decs \<and> w' = w
      else get_iteration_count st < get_iteration_count st'
           \<and> get_iteration_count st' \<le> get_max_iterations st)"
proof (induction ag st decs w arbitrary: st' decs' w' rule: react_loop.induct)
  case (1 ag st decs w)
  note unf = react_loop.simps[of ag st decs w]
  show ?case
  proof (cases "get_should_end st")
    case True
    with "1.prems" show ?thesis by (simp add: unf)
  next
    case False
    have not_max: "\<not> get_max_iterations st \<le> get_iteration_count st"
      using "1.prems" False by (auto simp: unf)
    obtain x y where inv: "invoke_llm ag (get_messages st) True w = (x, y)"
      by (cases "invoke_llm ag (get_messages st) True w")
    obtain b where x: "x = Inr b"
      using "1.prems" False not_max inv by (cases x) (auto simp: unf)
    show ?thesis
    proof (cases "tool_calls b \<noteq> []")
      case tc: True
      obtain xa ya where etc: "execute_tool_calls ag (tool_calls b) y = (xa, ya)"
        by (cases "execute_tool_calls ag (tool_calls b) y")
      obtain ba where xa: "xa = Inr ba"
        using "1.prems" False not_max inv x tc etc by (cases xa) (auto simp: unf)
      obtain bb where ent: "tool_result_entries (zip (tool_calls b) ba) = Inr bb"
        using "1.prems" False not_max inv x tc etc xa
        by (cases "tool_result_entries (zip (tool_calls b) ba)") (auto simp: unf)
      let ?st1 = "st\<lparr>st_messages :=
                Some (get_messages st @ [AIMsg b] @ tool_messages ag (zip (tool_calls b) ba)),
                st_iteration_count := Some (get_iteration_count st + 1),
                st_tool_results :=
                  Some (dict_update (get_tool_results st) (dict_update [] bb))\<rparr>"
      have rec: "react_loop ag ?st1 decs ya = (Inr (st', decs'), w')"
        using "1.prems" False not_max inv x tc etc xa ent by (simp add: unf)
      have ne1: "\<not> get_should_end ?st1" using False by (simp add: get_should_end_def)
      from "1.IH"(1)[OF False not_max inv[symmetric] x tc etc[symmetric] xa ent rec] ne1
      show ?thesis using False not_max
        by (simp add: get_iteration_count_def get_max_iterations_def)
    next
      case tc: False
      obtain ba where ex: "extract_result ag b st = Inr ba"
        using "1.prems" False not_max inv x tc
        by (cases "extract_result ag b st") (auto simp: unf)
      obtain xa ya where ba: "(xa, ya) = ba" by (cases ba) auto
      let ?st1 = "st\<lparr>st_messages := Some (get_messages st @ [AIMsg b]),
                st_should_end := Some True,
                st_iteration_count := Some (get_iteration_count st + 1)\<rparr>"
      have rec: "react_loop ag ?st1 (decs @ ya) y = (Inr (st', decs'), w')"
        using "1.prems" False not_max inv x tc ex ba[symmetric] by (simp add: unf)
      have e1: "get_should_end ?st1" by (simp add: get_should_end_def)
      from "1.IH"(2)[OF False not_max inv[symmetric] x tc ex ba rec] e1
      show ?thesis using False not_max
        by (simp add: get_iteration_count_def get_max_iterations_def get_should_end_def)
    qed
  qed
qed

lemma final_result_iteration_count:
  "map_of (final_result st) ''iteration_count'' = Some (PInt (get_iteration_count st))"
  by (simp add: final_result_def)

lemma prepared_state:
  "\<not> get_should_end (prepare_initial_state ag agent_input)"
  "get_iteration_count (prepare_initial_state ag agent_input) = 0"
  "get_max_iterations (prepare_initial_state ag agent_input) = max_iterations (self_config ag)"
  "st_max_iterations (prepare_initial_state ag agent_input) = Some (max_iterations (self_config ag))"
  by (simp_all add: prepare_initial_state_def get_should_end_def get_iteration_count_def
        get_max_iterations_def Let_def)

lemma react_execute_bound:
  assumes "\<not> get_should_end st"
    and "react_execute ag st agent_input w = (Inr (res, decs), w')"
  shows "\<exists>n. map_of res ''iteration_count'' = Some (PInt n)
             \<and> get_iteration_count st < n \<and> n \<le> get_max_iterations st"
proof -
  from assms(2) obtain st' where
    loop: "react_loop ag st [] w = (Inr (st', decs), w')" and res: "res = final_result st'"
    by (auto simp: react_execute_def split: prod.splits sum.splits)
  from react_loop_result[OF loop] assms(1)
  have "get_iteration_count st < get_iteration_count st'"
       "get_iteration_count st' \<le> get_max_iterations st" by auto
  with res show ?thesis by (auto simp: final_result_iteration_count)
qed

lemma react_loop_guard:
  "\<not> get_should_end st \<Longrightarrow> st_max_iterations st = Some m \<Longrightarrow> m \<le> get_iteration_count st \<Longrightarrow>
   react_loop ag st decs w =
     (Inl (AgentError MAX_ITERATIONS_EXCEEDED (''Max iterations ('' @ str_int m @ '') exceeded'')
            (Some (self_agent_id ag)) (Some (self_agent_type ag)) None), w)"
  by (subst react_loop.simps) (simp add: get_max_iterations_def max_iterations_error_def)

text \<open>
  C3, as the code has it. Whenever \<^verbatim>\<open>run\<close> of a ReAct agent returns a COMPLETED
  output, the \<^verbatim>\<open>iteration_count\<close> of its result is at most the configured
  \<^verbatim>\<open>max_iterations\<close>; the same bound holds for \<^verbatim>\<open>execute\<close> from any state whose
  termination flag is not set. Whenever the loop begins a pass in a state that carries the
  key \<^verbatim>\<open>max_iterations\<close> (as every state built by \<^verbatim>\<open>run\<close> does), with the flag not
  set and the iteration count at or above that value, it raises
  \<^verbatim>\<open>AgentError(MAX_ITERATIONS_EXCEEDED)\<close> without calling the model, and the wrapping
  \<^verbatim>\<open>run\<close> raises this error to its caller.
\<close>

theorem react_iteration_bound:
  "(\<forall>out w'. run ag (react_execute ag) agent_input w = (Inr out, w') \<and> status out = COMPLETED
       \<longrightarrow> (\<exists>n. map_of (result out) ''iteration_count'' = Some (PInt n)
                \<and> n \<le> max_iterations (self_config ag)))
   \<and> (\<forall>st res decs w'. \<not> get_should_end st
          \<and> react_execute ag st agent_input w = (Inr (res, decs), w')
       \<longrightarrow> (\<exists>n. map_of res ''iteration_count'' = Some (PInt n) \<and> n \<le> get_max_iterations st))
   \<and> (\<forall>st decs m. \<not> get_should_end st \<and> st_max_iterations st = Some m
          \<and> m \<le> get_iteration_count st
       \<longrightarrow> react_loop ag st decs w =
             (Inl (AgentError MAX_ITERATIONS_EXCEEDED
                     (''Max iterations ('' @ str_int m @ '') exceeded'')
                     (Some (self_agent_id ag)) (Some (self_agent_type ag)) None), w))
   \<and> (\<forall>e w1. task_id agent_input \<noteq> []
          \<and> react_execute ag (prepare_initial_state ag agent_input) agent_input
               (w\<lparr>calls := calls w + 1\<rparr>) = (Inl e, w1)
          \<and> error_code e = Some MAX_ITERATIONS_EXCEEDED
       \<longrightarrow> run ag (react_execute ag) agent_input w = (Inl e, w1))"
proof (intro conjI allI impI)
  fix out w'
  assume a: "run ag (react_execute ag) agent_input w = (Inr out, w') \<and> status out = COMPLETED"
  let ?st = "prepare_initial_state ag agent_input"
  let ?w0 = "w\<lparr>calls := calls w + 1\<rparr>"
  have ne: "task_id agent_input \<noteq> []"
    using a by (auto simp: run_invalid_input)
  obtain r w1 where ex: "react_execute ag ?st agent_input ?w0 = (r, w1)"
    by (cases "react_execute ag ?st agent_input ?w0")
  from run_valid_input[where execute = "react_execute ag" and ag = ag, OF ne ex] a
  obtain res decs where
    r: "r = Inr (res, decs)" and out: "result out = res"
    by (cases r) (auto split: if_splits)
  from react_execute_bound[OF prepared_state(1) ex[unfolded r]] out
  show "\<exists>n. map_of (result out) ''iteration_count'' = Some (PInt n)
            \<and> n \<le> max_iterations (self_config ag)"
    by (auto simp: prepared_state)
next
  fix st res decs w'
  assume "\<not> get_should_end st \<and> react_execute ag st agent_input w = (Inr (res, decs), w')"
  then show "\<exists>n. map_of res ''iteration_count'' = Some (PInt n) \<and> n \<le> get_max_iterations st"
    using react_execute_bound by blast
next
  fix st decs m
  assume "\<not> get_should_end st \<and> st_max_iterations st = Some m \<and> m \<le> get_iteration_count st"
  then show "react_loop ag st decs w =
             (Inl (AgentError MAX_ITERATIONS_EXCEEDED
                     (''Max iterations ('' @ str_int m @ '') exceeded'')
                     (Some (self_agent_id ag)) (Some (self_agent_type ag)) None), w)"
    by (simp add: react_loop_guard)
next
  fix e w1
  assume a: "task_id agent_input \<noteq> []
          \<and> react_execute ag (prepare_initial_state ag agent_input) agent_input
               (w\<lparr>calls := calls w + 1\<rparr>) = (Inl e, w1)
          \<and> error_code e = Some MAX_ITERATIONS_EXCEEDED"
  then have "is_AgentError e" by (cases e) auto
  with a run_valid_input[where execute = "react_execute ag" and ag = ag and w = w
             and agent_input = agent_input and r = "Inl e" and ?w1.0 = w1]
  show "run ag (react_execute ag) agent_input w = (Inl e, w1)" by simp
qed

theorem react_iteration_bound_witness:
  "run (example_agent example_config answering_llm)
       (react_execute (example_agent example_config answering_llm)) example_input w0
     = (Inr \<lparr> out_task_id = ''task_1'', out_agent_id = ''analyst_1'',
               out_agent_type = STRATEGY_ANALYZER, status = COMPLETED,
               result = [(''response'', PStr ''done''), (''tool_results'', PDict []),
                         (''iteration_count'', PInt 1)],
               decisions = [], error = None, execution_time_ms = 2000, token_usage = [] \<rparr>,
        \<lparr> calls = 3, sleeps = [] \<rparr>)
   \<and> (1::int) \<le> max_iterations (self_config (example_agent example_config answering_llm))
   \<and> task_id example_input \<noteq> []
   \<and> run looping_agent (react_execute looping_agent) example_input w0
     = (Inl (AgentError MAX_ITERATIONS_EXCEEDED ''Max iterations (2) exceeded''
               (Some ''analyst_1'') (Some STRATEGY_ANALYZER) None),
        \<lparr> calls = 5, sleeps = [] \<rparr>)"
proof -
  let ?A = "example_agent example_config answering_llm"
  let ?out = "\<lparr> out_task_id = ''task_1'', out_agent_id = ''analyst_1'',
               out_agent_type = STRATEGY_ANALYZER, status = COMPLETED,
               result = [(''response'', PStr ''done''), (''tool_results'', PDict []),
                         (''iteration_count'', PInt 1)],
               decisions = [], error = None, execution_time_ms = 2000, token_usage = [] \<rparr>"
  let ?e = "AgentError MAX_ITERATIONS_EXCEEDED ''Max iterations (2) exceeded''
               (Some ''analyst_1'') (Some STRATEGY_ANALYZER) None"
  have r1: "run ?A (react_execute ?A) example_input w0 = (Inr ?out, \<lparr> calls = 3, sleeps = [] \<rparr>)"
    by code_simp
  have "status ?out = COMPLETED" by simp
  with r1 react_iteration_bound[where ag = ?A and agent_input = example_input and w = w0]
  have "\<exists>n. map_of (result ?out) ''iteration_count'' = Some (PInt n)
            \<and> n \<le> max_iterations (self_config ?A)"
    by blast
  then have b: "(1::int) \<le> max_iterations (self_config ?A)" by simp
  have ne: "task_id example_input \<noteq> []" by (simp add: example_input_def)
  have e2: "react_execute looping_agent (prepare_initial_state looping_agent example_input)
              example_input (w0\<lparr>calls := calls w0 + 1\<rparr>) = (Inl ?e, \<lparr> calls = 5, sleeps = [] \<rparr>)"
    by code_simp
  have "error_code ?e = Some MAX_ITERATIONS_EXCEEDED" by simp
  with ne e2 react_iteration_bound[where ag = looping_agent and agent_input = example_input
                and w = w0]
  have r2: "run looping_agent (react_execute looping_agent) example_input w0
              = (Inl ?e, \<lparr> calls = 5, sleeps = [] \<rparr>)"
    by blast
  from r1 b ne r2 show ?thesis by blast
qed

text \<open>
  The claim as stated, that \<^verbatim>\<open>run\<close> turns the error into a FAILED output, fails: with
  \<^verbatim>\<open>max_iterations = 2\<close> and a model that asks for a tool call in every response, the
  third pass raises and \<^verbatim>\<open>run\<close> raises with it.
\<close>

theorem react_iteration_bound_counterexample:
  "run looping_agent (react_execute looping_agent) example_input w0 =
     (Inl (AgentError MAX_ITERATIONS_EXCEEDED ''Max iterations (2) exceeded''
             (Some ''analyst_1'') (Some STRATEGY_ANALYZER) None),
      \<lparr> calls = 5, sleeps = [] \<rparr>)"
  by code_simp

subsection \<open>The tool registry\<close>

text \<open>
  C9, as the code has it. \<^verbatim>\<open>get_by_category(category)\<close> returns exactly the registered
  tools whose recorded metadata has that category, together with every registered tool
  that has no metadata recorded; no tool whose recorded metadata has another category is
  returned.
\<close>

theorem get_by_category_members:
  "set (get_by_category r category) =
     {t. \<exists>nm. (nm, t) \<in> set (reg_tools r) \<and>
          (get_metadata r nm = None
           \<or> (\<exists>m. get_metadata r nm = Some m \<and> md_category m = category))}"
proof -
  have "\<And>nm. (md_category (case map_of (reg_metadata r) nm of
                               None \<Rightarrow> default_metadata nm category
                             | Some m \<Rightarrow> m) = category) =
        (get_metadata r nm = None \<or> (\<exists>m. get_metadata r nm = Some m \<and> md_category m = category))"
    by (simp add: get_metadata_def default_metadata_def split: option.splits)
  then show ?thesis
    unfolding get_by_category_def by (force simp: image_iff)
qed

text \<open>
  The claim as stated, that every returned tool has the category in its registered
  metadata, fails: a tool registered without metadata is returned for every category.
\<close>

theorem get_by_category_counterexample:
  "get_metadata (register new_ToolRegistry search_tool None) (bt_name search_tool) = None
   \<and> get_by_category (register new_ToolRegistry search_tool None) RISK = [search_tool]
   \<and> get_by_category (register new_ToolRegistry search_tool None) NEWS = [search_tool]"
  by (simp add: get_by_category_def register_def new_ToolRegistry_def get_metadata_def
        default_metadata_def)

subsection \<open>The agent factory\<close>

lemma get_or_create_keeps:
  "instances f k = Some b \<Longrightarrow>
   instances (snd (get_or_create agent_registry f agent_type config l ts)) k = Some b"
  by (auto simp: get_or_create_def split: option.splits sum.splits)

lemma get_or_create_calls_keep:
  "instances f k = Some b \<Longrightarrow> instances (get_or_create_calls f between) k = Some b"
proof (induction between arbitrary: f)
  case Nil
  then show ?case by simp
next
  case (Cons x between)
  obtain r ty cfg l ts where x: "x = (r, ty, cfg, l, ts)" by (cases x) auto
  from Cons.prems have "instances (snd (get_or_create r f ty cfg l ts)) k = Some b"
    by (rule get_or_create_keeps)
  from Cons.IH[OF this] show ?case by (simp add: x)
qed

lemma get_or_create_hit:
  "instances f (cfg_agent_id config) = Some a \<Longrightarrow>
   get_or_create agent_registry f agent_type config l ts = (Inr a, f)"
  by (simp add: get_or_create_def)

lemma get_or_create_caches:
  "get_or_create agent_registry f agent_type config l ts = (Inr a, f') \<Longrightarrow>
   instances f' (cfg_agent_id config) = Some a"
  by (auto simp: get_or_create_def split: option.splits sum.splits)

text \<open>
  C10. Once \<^verbatim>\<open>get_or_create\<close> has returned an instance for a configuration, the
  instance is cached under the configuration's agent id, and every later call whose
  configuration carries the same agent id returns that instance and leaves the factory
  unchanged, whatever agent type, other configuration fields, model, tools or registry
  contents the later call has, and whatever calls of \<^verbatim>\<open>get_or_create\<close> (for this or other
  agent ids, returning or raising) were made in between. More generally a call on an agent
  id that is in the cache returns the cached instance; no call, and no sequence of calls,
  removes or replaces an entry of the cache; and a call on an agent id that is not in the
  cache is \<^verbatim>\<open>create\<close>, whose instance is added under that id and whose error leaves the
  factory as it was.
\<close>

theorem get_or_create_idempotent:
  "(get_or_create agent_registry f agent_type config l ts = (Inr a, f')
      \<and> cfg_agent_id config' = cfg_agent_id config
    \<longrightarrow> instances f' (cfg_agent_id config) = Some a
        \<and> get_or_create agent_registry' f' agent_type' config' l' ts' = (Inr a, f')
        \<and> get_or_create agent_registry' (get_or_create_calls f' between) agent_type' config' l' ts'
            = (Inr a, get_or_create_calls f' between))
   \<and> (instances f (cfg_agent_id config) = Some a
    \<longrightarrow> get_or_create agent_registry f agent_type config l ts = (Inr a, f))
   \<and> (instances f k = Some b
    \<longrightarrow> instances (snd (get_or_create agent_registry f agent_type config l ts)) k = Some b
        \<and> instances (get_or_create_calls f between) k = Some b)
   \<and> (instances f (cfg_agent_id config) = None
    \<longrightarrow> get_or_create agent_registry f agent_type config l ts =
          (case create agent_registry f agent_type config l ts of
             Inl e \<Rightarrow> (Inl e, f)
           | Inr agent \<Rightarrow>
               (Inr agent, f\<lparr>instances := (instances f)(cfg_agent_id config \<mapsto> agent)\<rparr>)))"
proof (intro conjI impI)
  assume h: "get_or_create agent_registry f agent_type config l ts = (Inr a, f')
      \<and> cfg_agent_id config' = cfg_agent_id config"
  then have c: "instances f' (cfg_agent_id config') = Some a"
    using get_or_create_caches[of agent_registry f agent_type config l ts a f'] by simp
  from c h show "instances f' (cfg_agent_id config) = Some a" by simp
  from c show "get_or_create agent_registry' f' agent_type' config' l' ts' = (Inr a, f')"
    by (rule get_or_create_hit)
  from c have "instances (get_or_create_calls f' between) (cfg_agent_id config') = Some a"
    by (rule get_or_create_calls_keep)
  then show "get_or_create agent_registry' (get_or_create_calls f' between) agent_type' config' l' ts'
            = (Inr a, get_or_create_calls f' between)"
    by (rule get_or_create_hit)
next
  assume "instances f (cfg_agent_id config) = Some a"
  then show "get_or_create agent_registry f agent_type config l ts = (Inr a, f)"
    by (rule get_or_create_hit)
next
  assume "instances f k = Some b"
  then show "instances (snd (get_or_create agent_registry f agent_type config l ts)) k = Some b"
    by (rule get_or_create_keeps)
next
  assume "instances f k = Some b"
  then show "instances (get_or_create_calls f between) k = Some b"
    by (rule get_or_create_calls_keep)
next
  assume "instances f (cfg_agent_id config) = None"
  then show "get_or_create agent_registry f agent_type config l ts =
          (case create agent_registry f agent_type config l ts of
             Inl e \<Rightarrow> (Inl e, f)
           | Inr agent \<Rightarrow>
               (Inr agent, f\<lparr>instances := (instances f)(cfg_agent_id config \<mapsto> agent)\<rparr>))"
    by (simp add: get_or_create_def)
qed

theorem get_or_create_idempotent_witness:
  "get_or_create example_registry example_factory STRATEGY_ANALYZER example_config
       (Some answering_llm) None
     = (Inr (example_agent example_config answering_llm),
        example_factory\<lparr>instances := [''analyst_1'' \<mapsto> example_agent example_config answering_llm]\<rparr>)
   \<and> cfg_agent_id other_config = cfg_agent_id example_config
   \<and> get_or_create_calls
        (example_factory\<lparr>instances := [''analyst_1'' \<mapsto> example_agent example_config answering_llm]\<rparr>)
        [(example_registry, STRATEGY_ANALYZER, second_config, Some flaky_llm, None),
         (example_registry, RISK_ASSESSOR, risk_config, Some answering_llm, None)]
     = example_factory\<lparr>instances :=
         [''analyst_1'' \<mapsto> example_agent example_config answering_llm,
          ''analyst_2'' \<mapsto> example_agent second_config flaky_llm]\<rparr>
   \<and> fst (get_or_create example_registry
            (example_factory\<lparr>instances :=
               [''analyst_1'' \<mapsto> example_agent example_config answering_llm]\<rparr>)
            RISK_ASSESSOR risk_config (Some answering_llm) None)
     = Inl (AgentError AGENT_NOT_FOUND
              (''Agent type '' @ [CHR 0x27] @ ''risk_assessor'' @ [CHR 0x27] @ '' is not registered'')
              None (Some RISK_ASSESSOR) None)
   \<and> get_or_create empty_registry
        (example_factory\<lparr>instances :=
           [''analyst_1'' \<mapsto> example_agent example_config answering_llm,
            ''analyst_2'' \<mapsto> example_agent second_config flaky_llm]\<rparr>)
        RISK_ASSESSOR other_config None None
     = (Inr (example_agent example_config answering_llm),
        example_factory\<lparr>instances :=
          [''analyst_1'' \<mapsto> example_agent example_config answering_llm,
           ''analyst_2'' \<mapsto> example_agent second_config flaky_llm]\<rparr>)"
proof -
  let ?a = "example_agent example_config answering_llm"
  let ?b = "example_agent second_config flaky_llm"
  let ?f' = "example_factory\<lparr>instances := [''analyst_1'' \<mapsto> ?a]\<rparr>"
  let ?f'' = "example_factory\<lparr>instances := [''analyst_1'' \<mapsto> ?a, ''analyst_2'' \<mapsto> ?b]\<rparr>"
  let ?between = "[(example_registry, STRATEGY_ANALYZER, second_config, Some flaky_llm, None),
                   (example_registry, RISK_ASSESSOR, risk_config, Some answering_llm, None)]"
  have first: "get_or_create example_registry example_factory STRATEGY_ANALYZER example_config
       (Some answering_llm) None = (Inr ?a, ?f')"
    by (simp add: get_or_create_def create_def then_do_def example_registry_def
          example_factory_def example_class_def example_config_def)
  have same: "cfg_agent_id other_config = cfg_agent_id example_config"
    by (simp add: other_config_def)
  have second: "get_or_create example_registry ?f' STRATEGY_ANALYZER second_config
       (Some flaky_llm) None = (Inr ?b, ?f'')"
    by (simp add: get_or_create_def create_def then_do_def example_registry_def
          example_factory_def example_class_def second_config_def example_config_def)
  have third: "get_or_create example_registry ?f'' RISK_ASSESSOR risk_config
       (Some answering_llm) None
     = (Inl (AgentError AGENT_NOT_FOUND
              (''Agent type '' @ [CHR 0x27] @ ''risk_assessor'' @ [CHR 0x27] @ '' is not registered'')
              None (Some RISK_ASSESSOR) None), ?f'')"
    by (simp add: get_or_create_def create_def then_do_def example_registry_def
          example_factory_def risk_config_def example_config_def)
  have third': "fst (get_or_create example_registry ?f' RISK_ASSESSOR risk_config
       (Some answering_llm) None)
     = Inl (AgentError AGENT_NOT_FOUND
              (''Agent type '' @ [CHR 0x27] @ ''risk_assessor'' @ [CHR 0x27] @ '' is not registered'')
              None (Some RISK_ASSESSOR) None)"
    by (simp add: get_or_create_def create_def then_do_def example_registry_def
          example_factory_def risk_config_def example_config_def)
  have calls: "get_or_create_calls ?f' ?between = ?f''"
    by (simp add: second third)
  from get_or_create_idempotent[of example_registry example_factory STRATEGY_ANALYZER
         example_config "Some answering_llm" None ?a ?f' other_config empty_registry
         RISK_ASSESSOR None None ?between] first same
  have "get_or_create empty_registry (get_or_create_calls ?f' ?between)
          RISK_ASSESSOR other_config None None
        = (Inr ?a, get_or_create_calls ?f' ?between)"
    by simp
  with calls have later: "get_or_create empty_registry ?f'' RISK_ASSESSOR other_config None None
        = (Inr ?a, ?f'')"
    by simp
  from first same calls third' later show ?thesis by blast
qed

subsection \<open>The parallel fan-out node\<close>

lemma update_fresh: "k \<notin> fst ` set al \<Longrightarrow> AList.update k v al = al @ [(k, v)]"
  by (induction al) auto

lemma merge_results_plain:
  "distinct agents \<Longrightarrow>
   set agents \<inter> fst ` set outs0 = {} \<Longrightarrow>
   set agents \<inter> fst ` set errs0 = {} \<Longrightarrow>
   \<forall>a \<in> set agents. \<forall>v. f a = Returned v \<longrightarrow>
      (\<exists>d. v = PDict d \<and> \<not> dict_contains ''agent_outputs'' d) \<Longrightarrow>
   merge_results (zip agents (map f agents)) outs0 errs0 =
     Inr (outs0 @ success_entries f agents, errs0 @ error_entries f agents)"
proof (induction agents arbitrary: outs0 errs0)
  case Nil
  then show ?case by (simp add: success_entries_def error_entries_def)
next
  case (Cons a agents)
  show ?case
  proof (cases "f a")
    case (Raised e)
    have fresh: "a \<notin> fst ` set errs0" using Cons.prems by auto
    have d: "set agents \<inter> fst ` set (errs0 @ [(a, PStr (exn_str e))]) = {}"
      using Cons.prems by auto
    have "merge_results (zip (a # agents) (map f (a # agents))) outs0 errs0 =
          merge_results (zip agents (map f agents)) outs0 (errs0 @ [(a, PStr (exn_str e))])"
      using Raised fresh by (simp add: dict_set_def update_fresh)
    also have "\<dots> = Inr (outs0 @ success_entries f agents,
                         (errs0 @ [(a, PStr (exn_str e))]) @ error_entries f agents)"
      using Cons.prems d by (intro Cons.IH) auto
    finally show ?thesis using Raised by (simp add: success_entries_def error_entries_def)
  next
    case (Returned v)
    with Cons.prems obtain d where v: "v = PDict d" "\<not> dict_contains ''agent_outputs'' d"
      by auto
    have fresh: "a \<notin> fst ` set outs0" using Cons.prems by auto
    have d: "set agents \<inter> fst ` set (outs0 @ [(a, v)]) = {}"
      using Cons.prems by auto
    have "merge_results (zip (a # agents) (map f (a # agents))) outs0 errs0 =
          merge_results (zip agents (map f agents)) (outs0 @ [(a, v)]) errs0"
      using Returned v fresh by (simp add: dict_set_def update_fresh)
    also have "\<dots> = Inr ((outs0 @ [(a, v)]) @ success_entries f agents,
                         errs0 @ error_entries f agents)"
      using Cons.prems d by (intro Cons.IH) auto
    finally show ?thesis using Returned by (simp add: success_entries_def error_entries_def)
  qed
qed

lemma tasks_all_registered:
  "\<forall>a \<in> set agents. agent_handlers a \<noteq> None \<Longrightarrow>
   concat (map (\<lambda>agent_id. case agent_handlers agent_id of
                              None \<Rightarrow> [] | Some handler \<Rightarrow> [handler state]) agents)
   = map (\<lambda>a. the (agent_handlers a) state) agents"
  by (induction agents) auto

lemma parallel_executor_plain:
  assumes "distinct agents" "agents \<noteq> []"
    and "\<forall>a \<in> set agents. agent_handlers a \<noteq> None"
    and "\<not> dict_contains ''agent_outputs'' state" "\<not> dict_contains ''agent_errors'' state"
    and "\<forall>a \<in> set agents. \<forall>v. the (agent_handlers a) state = Returned v \<longrightarrow>
           (\<exists>d. v = PDict d \<and> \<not> dict_contains ''agent_outputs'' d)"
  shows "parallel_executor agents agent_handlers state =
     Inr (state @ [(''agent_outputs'',
                    PDict (success_entries (\<lambda>a. the (agent_handlers a) state) agents)),
                   (''agent_errors'',
                    PDict (error_entries (\<lambda>a. the (agent_handlers a) state) agents))])"
proof -
  let ?f = "\<lambda>a. the (agent_handlers a) state"
  have m: "merge_results (zip agents (map ?f agents)) [] [] =
        Inr ([] @ success_entries ?f agents, [] @ error_entries ?f agents)"
    using assms by (intro merge_results_plain) auto
  have g: "dict_get state ''agent_outputs'' (PDict []) = PDict []"
          "dict_get state ''agent_errors'' (PDict []) = PDict []"
    using assms(4,5) by (simp_all add: dict_get_def dict_contains_def)
  show ?thesis
    using assms(2,4,5) m
    by (simp add: parallel_executor_def tasks_all_registered[OF assms(3)] g as_dict_def
          then_do_def Let_def)
qed

text \<open>
  C2, as the code has it. Take a fan-out node over three distinct sub-agents, each with a
  registered handler, and an incoming state that has neither the key
  \<^verbatim>\<open>agent_outputs\<close> nor the key \<^verbatim>\<open>agent_errors\<close>. If exactly one handler raises and
  each of the two others returns a dictionary without the key \<^verbatim>\<open>agent_outputs\<close>, the
  node returns (the run does not abort) the incoming state extended by
  \<^verbatim>\<open>agent_outputs\<close>, holding exactly two entries, keyed by the two successful agents in
  their order and holding what their handlers returned, and by \<^verbatim>\<open>agent_errors\<close>,
  holding exactly one entry, keyed by the failing agent and holding \<^verbatim>\<open>str\<close> of its
  exception.
\<close>

theorem parallel_executor_one_failure:
  assumes "distinct [a1, a2, a3]"
    and "agent_handlers a1 \<noteq> None" "agent_handlers a2 \<noteq> None" "agent_handlers a3 \<noteq> None"
    and "\<not> dict_contains ''agent_outputs'' state" "\<not> dict_contains ''agent_errors'' state"
    and "failing \<in> {a1, a2, a3}"
    and "the (agent_handlers failing) state = Raised e"
    and "\<forall>a \<in> {a1, a2, a3} - {failing}.
           \<exists>d. the (agent_handlers a) state = Returned (PDict d)
               \<and> \<not> dict_contains ''agent_outputs'' d"
  shows "\<exists>outs. parallel_executor [a1, a2, a3] agent_handlers state =
                  Inr (state @ [(''agent_outputs'', PDict outs),
                                (''agent_errors'', PDict [(failing, PStr (exn_str e))])])
              \<and> length outs = 2
              \<and> map fst outs = filter (\<lambda>a. a \<noteq> failing) [a1, a2, a3]
              \<and> (\<forall>(a, v) \<in> set outs. the (agent_handlers a) state = Returned v)"
proof -
  let ?f = "\<lambda>a. the (agent_handlers a) state"
  have ret: "\<forall>a \<in> set [a1, a2, a3]. \<forall>v. ?f a = Returned v \<longrightarrow>
           (\<exists>d. v = PDict d \<and> \<not> dict_contains ''agent_outputs'' d)"
  proof (intro ballI allI impI)
    fix a v
    assume a: "a \<in> set [a1, a2, a3]" and v: "?f a = Returned v"
    from v assms(8) have "a \<noteq> failing" by auto
    with a have "a \<in> {a1, a2, a3} - {failing}" by simp
    with assms(9) obtain d where "?f a = Returned (PDict d)"
      "\<not> dict_contains ''agent_outputs'' d"
      by blast
    with v show "\<exists>d. v = PDict d \<and> \<not> dict_contains ''agent_outputs'' d" by auto
  qed
  have reg: "\<forall>a \<in> set [a1, a2, a3]. agent_handlers a \<noteq> None"
    using assms(2,3,4) by simp
  have pe: "parallel_executor [a1, a2, a3] agent_handlers state =
     Inr (state @ [(''agent_outputs'', PDict (success_entries ?f [a1, a2, a3])),
                   (''agent_errors'', PDict (error_entries ?f [a1, a2, a3]))])"
    using assms(1,5,6) reg ret by (intro parallel_executor_plain) simp_all
  have other: "\<exists>d. ?f a = Returned (PDict d)" if "a \<in> {a1, a2, a3}" "a \<noteq> failing" for a
    using that assms(9) by blast
  have ne: "a1 \<noteq> a2" "a1 \<noteq> a3" "a2 \<noteq> a3" using assms(1) by auto
  from assms(7) consider "failing = a1" | "failing = a2" | "failing = a3" by auto
  then have "error_entries ?f [a1, a2, a3] = [(failing, PStr (exn_str e))]
     \<and> length (success_entries ?f [a1, a2, a3]) = 2
     \<and> map fst (success_entries ?f [a1, a2, a3]) = filter (\<lambda>a. a \<noteq> failing) [a1, a2, a3]
     \<and> (\<forall>(a, v) \<in> set (success_entries ?f [a1, a2, a3]). ?f a = Returned v)"
  proof cases
    case 1
    from other[of a2] other[of a3] 1 ne
    obtain d2 d3 where "?f a2 = Returned (PDict d2)" "?f a3 = Returned (PDict d3)"
      by auto
    with 1 ne assms(8) show ?thesis by (auto simp: success_entries_def error_entries_def)
  next
    case 2
    from other[of a1] other[of a3] 2 ne
    obtain d1 d3 where "?f a1 = Returned (PDict d1)" "?f a3 = Returned (PDict d3)"
      by auto
    with 2 ne assms(8) show ?thesis by (auto simp: success_entries_def error_entries_def)
  next
    case 3
    from other[of a1] other[of a2] 3 ne
    obtain d1 d2 where "?f a1 = Returned (PDict d1)" "?f a2 = Returned (PDict d2)"
      by auto
    with 3 ne assms(8) show ?thesis by (auto simp: success_entries_def error_entries_def)
  qed
  with pe show ?thesis
    by (intro exI[of _ "success_entries ?f [a1, a2, a3]"]) simp
qed

theorem parallel_executor_one_failure_witness:
  "distinct [''technical'', ''sentiment'', ''fundamental'']
   \<and> \<not> dict_contains ''agent_outputs'' workflow_state
   \<and> \<not> dict_contains ''agent_errors'' workflow_state
   \<and> the (plain_handlers ''sentiment'') workflow_state
       = Raised (PyException RuntimeError ''no data'')
   \<and> the (plain_handlers ''technical'') workflow_state
       = Returned (PDict [(''trend'', PStr ''up'')])
   \<and> the (plain_handlers ''fundamental'') workflow_state
       = Returned (PDict [(''rating'', PStr ''good'')])
   \<and> (\<exists>outs. parallel_executor [''technical'', ''sentiment'', ''fundamental'']
                 plain_handlers workflow_state =
               Inr (workflow_state @
                      [(''agent_outputs'', PDict outs),
                       (''agent_errors'', PDict [(''sentiment'', PStr ''no data'')])])
             \<and> length outs = 2
             \<and> map fst outs = [''technical'', ''fundamental''])"
proof -
  have d: "distinct [''technical'', ''sentiment'', ''fundamental'']" by simp
  have r: "plain_handlers ''technical'' \<noteq> None" "plain_handlers ''sentiment'' \<noteq> None"
    "plain_handlers ''fundamental'' \<noteq> None"
    by (simp_all add: plain_handlers_def)
  have k: "\<not> dict_contains ''agent_outputs'' workflow_state"
    "\<not> dict_contains ''agent_errors'' workflow_state"
    by (simp_all add: dict_contains_def workflow_state_def)
  have f: "''sentiment'' \<in> {''technical'', ''sentiment'', ''fundamental''}" by simp
  have e: "the (plain_handlers ''sentiment'') workflow_state
             = Raised (PyException RuntimeError ''no data'')"
    by (simp add: plain_handlers_def)
  have v: "the (plain_handlers ''technical'') workflow_state
             = Returned (PDict [(''trend'', PStr ''up'')])"
    "the (plain_handlers ''fundamental'') workflow_state
             = Returned (PDict [(''rating'', PStr ''good'')])"
    by (simp_all add: plain_handlers_def)
  have s: "\<forall>a \<in> {''technical'', ''sentiment'', ''fundamental''} - {''sentiment''}.
           \<exists>d. the (plain_handlers a) workflow_state = Returned (PDict d)
               \<and> \<not> dict_contains ''agent_outputs'' d"
    by (auto simp: plain_handlers_def dict_contains_def)
  from parallel_executor_one_failure[OF d r k f e s]
  obtain outs where o: "parallel_executor [''technical'', ''sentiment'', ''fundamental'']
                 plain_handlers workflow_state =
               Inr (workflow_state @
                      [(''agent_outputs'', PDict outs),
                       (''agent_errors'',
                        PDict [(''sentiment'', PStr (exn_str (PyException RuntimeError ''no data'')))])])"
     "length outs = 2"
     "map fst outs = filter (\<lambda>a. a \<noteq> ''sentiment'') [''technical'', ''sentiment'', ''fundamental'']"
    by blast
  then have "\<exists>outs. parallel_executor [''technical'', ''sentiment'', ''fundamental'']
                 plain_handlers workflow_state =
               Inr (workflow_state @
                      [(''agent_outputs'', PDict outs),
                       (''agent_errors'', PDict [(''sentiment'', PStr ''no data'')])])
             \<and> length outs = 2
             \<and> map fst outs = [''technical'', ''fundamental'']"
    by simp
  with d k e v show ?thesis by blast
qed

text \<open>
  The claim as stated, for every three handlers of which one raises, fails: a handler that
  returns a state with the key \<^verbatim>\<open>agent_outputs\<close> has the entries of that dictionary
  merged instead of an entry under its own identifier (engine.py, lines 281-282). Two
  handlers that both store their result under \<^verbatim>\<open>analysis\<close> leave one output entry.
\<close>

theorem parallel_executor_one_failure_counterexample:
  "parallel_executor [''technical'', ''sentiment'', ''fundamental''] state_handlers
     workflow_state =
   Inr (workflow_state @
          [(''agent_outputs'', PDict [(''analysis'', PStr ''good'')]),
           (''agent_errors'', PDict [(''sentiment'', PStr ''no data'')])])"
  by code_simp

text \<open>
  Beside the claim: when the incoming state already has the key \<^verbatim>\<open>agent_outputs\<close> or
  the key \<^verbatim>\<open>agent_errors\<close> and at least one handler runs, the node raises, because
  \<^verbatim>\<open>AgentState(**dict(state), agent_outputs=..., agent_errors=...)\<close> then passes a
  keyword twice. A state built by \<^verbatim>\<open>_prepare_initial_state\<close> has both keys.
\<close>

lemma parallel_executor_duplicate_keyword:
  assumes "dict_contains ''agent_outputs'' state \<or> dict_contains ''agent_errors'' state"
    and "agents \<noteq> []" and "\<forall>a \<in> set agents. agent_handlers a \<noteq> None"
  shows "\<exists>e. parallel_executor agents agent_handlers state = Inl e"
proof -
  have "concat (map (\<lambda>agent_id. case agent_handlers agent_id of
                              None \<Rightarrow> [] | Some handler \<Rightarrow> [handler state]) agents) \<noteq> []"
    using assms(2,3) by (simp add: tasks_all_registered)
  then show ?thesis using assms(1)
    by (auto simp: parallel_executor_def then_do_def Let_def split: sum.splits)
qed

lemma parallel_executor_prepared_state:
  "parallel_executor [''technical'', ''sentiment'', ''fundamental''] plain_handlers
     prepared_workflow_state =
   Inl (PyException TypeError ''got multiple values for keyword argument'')"
  by code_simp

subsection \<open>Selecting and parsing the JSON text of a response\<close>

lemma split_pieces_nonempty: "split_pieces sep cur s \<noteq> []"
  by (induction sep cur s rule: split_pieces.induct) auto

lemma py_in_Nil: "py_in [] s"
  by (cases s) auto

lemma py_in_append_left: "py_in sub s \<Longrightarrow> py_in sub (a @ s)"
  by (induction a) auto

lemma py_in_append_right: "py_in sub s \<Longrightarrow> py_in sub (s @ b)"
proof (induction s)
  case Nil
  then show ?case by (simp add: py_in_Nil)
next
  case (Cons c s)
  then show ?case using prefix_prefix[of sub "c # s" b] by auto
qed

lemma py_in_self: "py_in sub (sub @ b)"
proof (cases "sub @ b")
  case Nil
  then show ?thesis by simp
next
  case (Cons c cs)
  have "prefix sub (sub @ b)" by simp
  then show ?thesis unfolding Cons by simp
qed

lemma py_in_middle: "py_in sub (a @ sub @ b)"
  using py_in_self by (rule py_in_append_left)

lemma prefix_shorter:
  "prefix xs (ys @ zs) \<Longrightarrow> length xs \<le> length ys \<Longrightarrow> prefix xs ys"
  by (auto simp: prefix_append)

lemma split_pieces_none: "\<not> py_in sep s \<Longrightarrow> split_pieces sep cur s = [cur @ s]"
  by (induction sep cur s rule: split_pieces.induct) auto

lemma split_pieces_first:
  "sep \<noteq> [] \<Longrightarrow> \<not> py_in sep (a @ butlast sep) \<Longrightarrow>
   split_pieces sep cur (a @ sep @ b) = (cur @ a) # split_pieces sep [] b"
proof (induction a arbitrary: cur)
  case Nil
  then obtain c cs where cs: "sep @ b = c # cs" by (cases "sep @ b") auto
  have "prefix sep (sep @ b)" by simp
  with Nil cs show ?case by (metis append_Nil append_Nil2 append_eq_conv_conj split_pieces.simps(2))
next
  case (Cons x a)
  have len: "length sep \<le> length ((x # a) @ butlast sep)" using Cons.prems(1) by (cases sep) auto
  have np: "\<not> prefix sep (x # a @ sep @ b)"
  proof
    assume "prefix sep (x # a @ sep @ b)"
    moreover have "sep @ b = butlast sep @ ([last sep] @ b)"
      using Cons.prems(1) by simp
    ultimately have "prefix sep (((x # a) @ butlast sep) @ ([last sep] @ b))"
      by (metis append.assoc append_Cons)
    from prefix_shorter[OF this len] have "prefix sep (x # a @ butlast sep)" by simp
    with Cons.prems(2) show False by simp
  qed
  have rest: "\<not> py_in sep (a @ butlast sep)" using Cons.prems(2) by simp
  from np Cons.IH[OF Cons.prems(1) rest] show ?case by simp
qed

lemma py_in_prefix_part: "py_in (a @ b) s \<Longrightarrow> py_in a s"
  by (induction s) (auto simp: prefix_def)

lemma split_pieces_hd: "\<exists>q. hd (split_pieces sep cur s) = cur @ q"
  by (induction sep cur s rule: split_pieces.induct) auto


lemma fence_facts:
  "fence \<noteq> []" "json_fence \<noteq> []" "json_fence = fence @ ''json''"
  "length fence = 3" "fence = [CHR 0x60, CHR 0x60, CHR 0x60]"
  by (simp_all add: fence_def json_fence_def)

lemma json_fence_piece:
  "\<not> py_in fence (body @ butlast fence) \<Longrightarrow> rest = [] \<or> hd rest \<noteq> CHR 0x60 \<Longrightarrow>
   \<exists>p. hd (split_pieces json_fence cur (body @ fence @ rest)) = cur @ p
       \<and> (p = body \<or> prefix (body @ fence) p)"
proof (induction body arbitrary: cur)
  case Nil
  show ?case
  proof (cases "prefix json_fence (fence @ rest)")
    case True
    then show ?thesis by (simp add: fence_facts(5) json_fence_def)
  next
    case False
    from Nil.prems(2) have n2: "\<not> prefix json_fence (CHR 0x60 # CHR 0x60 # rest)"
      by (cases rest) (auto simp: json_fence_def fence_def)
    from Nil.prems(2) have n1: "\<not> prefix json_fence (CHR 0x60 # rest)"
      by (cases rest) (auto simp: json_fence_def fence_def)
    from split_pieces_hd[of json_fence "cur @ fence" rest]
    obtain q where q: "hd (split_pieces json_fence (cur @ fence) rest) = (cur @ fence) @ q"
      by blast
    have "split_pieces json_fence cur (fence @ rest) =
          split_pieces json_fence (cur @ fence) rest"
      using False n2 n1 by (simp add: fence_facts(5))
    with q show ?thesis by (intro exI[of _ "fence @ q"]) simp
  qed
next
  case (Cons c body)
  have len: "length fence \<le> length ((c # body) @ butlast fence)" by (simp add: fence_facts)
  have np: "\<not> prefix json_fence (c # body @ fence @ rest)"
  proof
    assume "prefix json_fence (c # body @ fence @ rest)"
    then have "prefix fence (c # body @ fence @ rest)"
      by (metis fence_facts(3) append_prefixD)
    moreover have "fence @ rest = butlast fence @ ([last fence] @ rest)"
      by (simp add: fence_facts(5))
    ultimately have "prefix fence (((c # body) @ butlast fence) @ ([last fence] @ rest))"
      by (metis append.assoc append_Cons)
    from prefix_shorter[OF this len] Cons.prems(1) show False by simp
  qed
  have r: "\<not> py_in fence (body @ butlast fence)" using Cons.prems(1) by simp
  from Cons.IH[OF r Cons.prems(2), of "cur @ [c]"] obtain p where
    p: "hd (split_pieces json_fence (cur @ [c]) (body @ fence @ rest)) = (cur @ [c]) @ p"
       "p = body \<or> prefix (body @ fence) p"
    by blast
  have "split_pieces json_fence cur ((c # body) @ fence @ rest) =
        split_pieces json_fence (cur @ [c]) (body @ fence @ rest)"
    using np by simp
  with p show ?case by (intro exI[of _ "c # p"]) auto
qed

lemma first_piece_to_fence:
  assumes "\<not> py_in fence (body @ butlast fence)" "p = body \<or> prefix (body @ fence) p"
  shows "hd (split_pieces fence [] p) = body"
proof -
  from assms(2) show ?thesis
  proof
    assume "p = body"
    moreover have "\<not> py_in fence body" using assms(1) py_in_append_right by blast
    ultimately show ?thesis by (simp add: split_pieces_none)
  next
    assume "prefix (body @ fence) p"
    then obtain r where "p = body @ fence @ r" by (auto simp: prefix_def)
    then show ?thesis using split_pieces_first[OF fence_facts(1) assms(1), of "[]" r] by simp
  qed
qed

lemma index_one: "xs \<noteq> [] \<Longrightarrow> py_index (x # xs) (Suc 0) = Inr (hd xs)"
  by (cases xs) (auto simp: py_index_def)

lemma index_zero: "xs \<noteq> [] \<Longrightarrow> py_index xs 0 = Inr (hd xs)"
  by (cases xs) (auto simp: py_index_def)

lemma json_candidate_json_closed:
  assumes "content = pre @ json_fence @ body @ fence @ rest"
    and "\<not> py_in json_fence (pre @ butlast json_fence)"
    and "\<not> py_in fence (body @ butlast fence)"
    and "rest = [] \<or> hd rest \<noteq> CHR 0x60"
  shows "json_candidate content = Inr body"
proof -
  have i: "py_in json_fence content" unfolding assms(1) by (rule py_in_middle)
  have ps: "split_pieces json_fence [] content =
            pre # split_pieces json_fence [] (body @ fence @ rest)"
    unfolding assms(1) using split_pieces_first[OF fence_facts(2) assms(2), of "[]"] by simp
  from json_fence_piece[OF assms(3,4), of "[]"] obtain p where
    p: "hd (split_pieces json_fence [] (body @ fence @ rest)) = p"
       "p = body \<or> prefix (body @ fence) p"
    by auto
  have b: "hd (split_pieces fence [] p) = body" by (rule first_piece_to_fence[OF assms(3) p(2)])
  show ?thesis
    using i ps p(1) b
    by (simp add: json_candidate_def py_split_def then_do_def fence_facts(1,2)
          index_one index_zero split_pieces_nonempty)
qed

lemma json_candidate_json_open:
  assumes "content = pre @ json_fence @ body"
    and "\<not> py_in json_fence (pre @ butlast json_fence)"
    and "\<not> py_in fence body"
  shows "json_candidate content = Inr body"
proof -
  have i: "py_in json_fence content"
    using py_in_middle[of json_fence pre body] by (simp add: assms(1))
  have nj: "\<not> py_in json_fence body"
    using assms(3) py_in_prefix_part[of fence "''json''" body] by (auto simp: fence_facts(3))
  have ps: "split_pieces json_fence [] content = [pre, body]"
    unfolding assms(1)
    using split_pieces_first[OF fence_facts(2) assms(2), of "[]" body]
    by (simp add: split_pieces_none[OF nj])
  show ?thesis
    using i ps
    by (simp add: json_candidate_def py_split_def then_do_def fence_facts(1,2)
          py_index_def split_pieces_none[OF assms(3)])
qed

lemma json_candidate_fence_closed:
  assumes "\<not> py_in json_fence content"
    and "content = pre @ fence @ body @ fence @ rest"
    and "\<not> py_in fence (pre @ butlast fence)"
    and "\<not> py_in fence (body @ butlast fence)"
  shows "json_candidate content = Inr body"
proof -
  have i: "py_in fence content" unfolding assms(2) by (rule py_in_middle)
  have ps: "split_pieces fence [] content = pre # body # split_pieces fence [] rest"
    unfolding assms(2)
    using split_pieces_first[OF fence_facts(1) assms(3), of "[]" "body @ fence @ rest"]
      split_pieces_first[OF fence_facts(1) assms(4), of "[]" rest]
    by simp
  have nb: "\<not> py_in fence body" using assms(4) py_in_append_right by blast
  show ?thesis
    using assms(1) i ps
    by (simp add: json_candidate_def py_split_def then_do_def fence_facts(1,2)
          py_index_def split_pieces_none[OF nb])
qed

lemma json_candidate_fence_open:
  assumes "\<not> py_in json_fence content"
    and "content = pre @ fence @ body"
    and "\<not> py_in fence (pre @ butlast fence)"
    and "\<not> py_in fence body"
  shows "json_candidate content = Inr body"
proof -
  have i: "py_in fence content"
    using py_in_middle[of fence pre body] by (simp add: assms(2))
  have ps: "split_pieces fence [] content = [pre, body]"
    unfolding assms(2)
    using split_pieces_first[OF fence_facts(1) assms(3), of "[]" body]
    by (simp add: split_pieces_none[OF assms(4)])
  show ?thesis
    using assms(1) i ps
    by (simp add: json_candidate_def py_split_def then_do_def fence_facts(1,2)
          py_index_def split_pieces_none[OF assms(4)])
qed






lemma decision_type_default:
  "map_of res ''decision'' = None \<Longrightarrow>
   decision_type_of (dict_get res ''decision'' (PStr ''hold'')) = Inr HOLD"
  by (simp add: dict_get_def decision_type_of_def decision_type_map_def)

















text \<open>
  A \<^verbatim>\<open>decision\<close> entry that is a list or an object is not hashable:
  \<^verbatim>\<open>decision_type_map.get\<close> raises \<^verbatim>\<open>TypeError\<close>, which the handler does not catch
  either.
\<close>

lemma strategy_unhashable_decision:
  assumes "json_candidate (ai_content response) = Inr c"
    and "json_loads (py_strip c) = Some (PDict res)"
    and "map_of res ''decision'' = Some (PList xs) \<or> map_of res ''decision'' = Some (PDict kv)"
  shows "strategy_extract_result json_loads response state =
           Inl (PyException TypeError ''unhashable type'')"
  using assms
  by (auto simp: strategy_extract_result_def strategy_try_body_def then_do_def dict_get_def
        decision_type_of_def exn_class_of_def)

lemma strategy_unhashable_example:
  "strategy_extract_result json_loads_table
     \<lparr> ai_content = list_decision_json, tool_calls = [] \<rparr> example_state
   = Inl (PyException TypeError ''unhashable type'')"
  by code_simp

subsection \<open>Plan creation\<close>

lemma create_plan_unfold:
  "invoke_llm ag (plan_messages ag agent_input) False w = (Inr response, w') \<Longrightarrow>
   create_plan json_loads ag agent_input w =
     (case plan_try_body json_loads (ai_content response) of
        Inr plan \<Rightarrow> (Inr plan, w')
      | Inl e \<Rightarrow> if exn_class_of e = Some JSONDecodeError
                 then (Inr (single_step_plan agent_input), w') else (Inl e, w'))"
  by (simp add: create_plan_def plan_messages_def Let_def)

text \<open>
  C8, as the code has it. For every model response to the planning request: if the
  candidate text of the response is not valid JSON, \<^verbatim>\<open>create_plan\<close> does not raise and
  returns the plan of one step that carries the task content verbatim; if the candidate
  parses to a JSON object, \<^verbatim>\<open>create_plan\<close> does not raise and returns the object's
  \<^verbatim>\<open>plan\<close> entry, the empty list when the object has none.
\<close>

theorem create_plan_degrades:
  "(\<forall>response w' c.
       invoke_llm ag (plan_messages ag agent_input) False w = (Inr response, w')
       \<and> json_candidate (ai_content response) = Inr c \<and> json_loads c = None
     \<longrightarrow> create_plan json_loads ag agent_input w
           = (Inr (PList [PDict [(''step'', PInt 1),
                                 (''action'', PStr ''Execute task directly''),
                                 (''task'', PDict (input_content agent_input))]]), w'))
   \<and> (\<forall>response w' c plan_data.
       invoke_llm ag (plan_messages ag agent_input) False w = (Inr response, w')
       \<and> json_candidate (ai_content response) = Inr c
       \<and> json_loads c = Some (PDict plan_data)
     \<longrightarrow> create_plan json_loads ag agent_input w
           = (Inr (case map_of plan_data ''plan'' of None \<Rightarrow> PList [] | Some plan \<Rightarrow> plan), w'))"
proof (intro conjI allI impI)
  fix response w' c
  assume a: "invoke_llm ag (plan_messages ag agent_input) False w = (Inr response, w')
       \<and> json_candidate (ai_content response) = Inr c \<and> json_loads c = None"
  then have "plan_try_body json_loads (ai_content response)
               = Inl (PyException JSONDecodeError ''Expecting value'')"
    by (simp add: plan_try_body_def then_do_def)
  with a show "create_plan json_loads ag agent_input w
           = (Inr (PList [PDict [(''step'', PInt 1),
                                 (''action'', PStr ''Execute task directly''),
                                 (''task'', PDict (input_content agent_input))]]), w')"
    by (simp add: create_plan_unfold exn_class_of_def single_step_plan_def)
next
  fix response w' c plan_data
  assume a: "invoke_llm ag (plan_messages ag agent_input) False w = (Inr response, w')
       \<and> json_candidate (ai_content response) = Inr c
       \<and> json_loads c = Some (PDict plan_data)"
  then have "plan_try_body json_loads (ai_content response)
               = Inr (dict_get plan_data ''plan'' (PList []))"
    by (simp add: plan_try_body_def then_do_def)
  with a show "create_plan json_loads ag agent_input w
           = (Inr (case map_of plan_data ''plan'' of None \<Rightarrow> PList [] | Some plan \<Rightarrow> plan), w')"
    by (simp add: create_plan_unfold dict_get_def)
qed

theorem create_plan_degrades_witness:
  "invoke_llm (example_agent example_config answering_llm)
       (plan_messages (example_agent example_config answering_llm) example_input) False w0
     = (Inr final_answer, \<lparr> calls = 1, sleeps = [] \<rparr>)
   \<and> json_candidate (ai_content final_answer) = Inr ''done''
   \<and> json_loads_table ''done'' = None
   \<and> create_plan json_loads_table (example_agent example_config answering_llm) example_input w0
     = (Inr (PList [PDict [(''step'', PInt 1), (''action'', PStr ''Execute task directly''),
                           (''task'', PDict [(''symbol'', PStr ''600519'')])]]),
        \<lparr> calls = 1, sleeps = [] \<rparr>)
   \<and> invoke_llm (example_agent example_config empty_object_llm)
       (plan_messages (example_agent example_config empty_object_llm) example_input) False w0
     = (Inr \<lparr> ai_content = ''{}'', tool_calls = [] \<rparr>, \<lparr> calls = 1, sleeps = [] \<rparr>)
   \<and> json_candidate ''{}'' = Inr ''{}''
   \<and> json_loads_table ''{}'' = Some (PDict [])
   \<and> create_plan json_loads_table (example_agent example_config empty_object_llm)
         example_input w0
     = (Inr (PList []), \<lparr> calls = 1, sleeps = [] \<rparr>)"
proof -
  let ?A = "example_agent example_config answering_llm"
  let ?B = "example_agent example_config empty_object_llm"
  let ?w = "\<lparr> calls = 1, sleeps = [] \<rparr>"
  let ?rb = "\<lparr> ai_content = ''{}'', tool_calls = [] \<rparr>"
  have i1: "invoke_llm ?A (plan_messages ?A example_input) False w0 = (Inr final_answer, ?w)"
    by code_simp
  have c1: "json_candidate (ai_content final_answer) = Inr ''done''" by code_simp
  have l1: "json_loads_table ''done'' = None" by code_simp
  from create_plan_degrades[where ag = ?A and agent_input = example_input and w = w0
         and json_loads = json_loads_table, THEN conjunct1, rule_format,
         of final_answer ?w "''done''"] i1 c1 l1
  have p1: "create_plan json_loads_table ?A example_input w0
     = (Inr (PList [PDict [(''step'', PInt 1), (''action'', PStr ''Execute task directly''),
                           (''task'', PDict [(''symbol'', PStr ''600519'')])]]), ?w)"
    by (simp add: example_input_def)
  have i2: "invoke_llm ?B (plan_messages ?B example_input) False w0 = (Inr ?rb, ?w)"
    by code_simp
  have c2: "json_candidate ''{}'' = Inr ''{}''" by code_simp
  have l2: "json_loads_table ''{}'' = Some (PDict [])" by code_simp
  from create_plan_degrades[where ag = ?B and agent_input = example_input and w = w0
         and json_loads = json_loads_table, THEN conjunct2, rule_format,
         of ?rb ?w "''{}''" "[]"] i2 c2 l2
  have p2: "create_plan json_loads_table ?B example_input w0 = (Inr (PList []), ?w)"
    by simp
  from i1 c1 l1 p1 i2 c2 l2 p2 show ?thesis by blast
qed

text \<open>
  The claim as stated, that the plan returned is never empty, fails: a response that is
  the JSON object \<^verbatim>\<open>{}\<close> parses, and \<^verbatim>\<open>plan_data.get("plan", [])\<close> is the empty plan.
\<close>

theorem create_plan_degrades_counterexample:
  "create_plan json_loads_table (example_agent example_config empty_object_llm)
     example_input w0
   = (Inr (PList []), \<lparr> calls = 1, sleeps = [] \<rparr>)"
  by code_simp

text \<open>
  Beside the claim: a response that parses to a JSON value other than an object makes
  \<^verbatim>\<open>create_plan\<close> raise \<^verbatim>\<open>AttributeError\<close>; only \<^verbatim>\<open>json.JSONDecodeError\<close> is caught.
\<close>

lemma create_plan_non_object:
  "create_plan json_loads_table (example_agent example_config array_llm) example_input w0
   = (Inl (PyException AttributeError ''object has no attribute get''),
      \<lparr> calls = 1, sleeps = [] \<rparr>)"
  by code_simp

end
